theory Spec2Isabelle
  imports
    Complex_Main
    "HOL-Library.Product_Lexorder"
    "HOL-Library.Char_ord"
    "HOL-Library.List_Lexorder"
begin

section \<open>Values, cells and errors\<close>

text \<open>
  The feature layer of the repository is written against pandas data frames. A frame is
  modelled by the list of its column names and the list of its rows; a row holds the
  cells of the columns the code reads. Floating point numbers are modelled as reals and
  NaN, None and NaT as the absence of a value.

  A cell of a value column is modelled up to what \<^verbatim>\<open>pd.to_numeric(errors="coerce")\<close>
  makes of it: a null, a number (a number or a numeric string), or something that does
  not coerce. A cell of the timestamp column is modelled up to what
  \<^verbatim>\<open>pd.to_datetime(errors="coerce")\<close> makes of it, as nanoseconds since the epoch.
\<close>

datatype error = ValueError string | KeyError string | TypeError string

datatype vcell = VNull | VNum real | VBad

datatype tcell = TNull | TStamp int | TBad

text \<open>\<^verbatim>\<open>DeterminandId = Union[int, str]\<close>\<close>

datatype det_id = DInt int | DStr string

fun to_numeric :: "vcell \<Rightarrow> real option" where
  "to_numeric VNull = None"
| "to_numeric (VNum r) = Some r"
| "to_numeric VBad = None"

fun to_datetime :: "tcell \<Rightarrow> int option" where
  "to_datetime TNull = None"
| "to_datetime (TStamp t) = Some t"
| "to_datetime TBad = None"

subsection \<open>Python's \<open>str\<close> and \<open>int\<close> on identifiers\<close>

definition digit_char :: "nat \<Rightarrow> char" where
  "digit_char d = ''0123456789'' ! d"

fun str_nat :: "nat \<Rightarrow> string" where
  "str_nat n = (if n < 10 then [digit_char n] else str_nat (n div 10) @ [digit_char (n mod 10)])"

declare str_nat.simps [simp del]

definition str_int :: "int \<Rightarrow> string" where
  "str_int i = (if i < 0 then CHR ''-'' # str_nat (nat (- i)) else str_nat (nat i))"

fun py_str :: "det_id \<Rightarrow> string" where
  "py_str (DInt i) = str_int i"
| "py_str (DStr s) = s"

definition digit_of :: "char \<Rightarrow> nat option" where
  "digit_of c = map_of
     [(CHR ''0'', 0), (CHR ''1'', 1), (CHR ''2'', 2), (CHR ''3'', 3), (CHR ''4'', 4),
      (CHR ''5'', 5), (CHR ''6'', 6), (CHR ''7'', 7), (CHR ''8'', 8), (CHR ''9'', 9)] c"

definition is_space :: "char \<Rightarrow> bool" where
  "is_space c = (c \<in> set [CHR '' '', CHR 0x09, CHR 0x0A, CHR 0x0B, CHR 0x0C, CHR 0x0D])"

definition strip :: "string \<Rightarrow> string" where
  "strip s = rev (dropWhile is_space (rev (dropWhile is_space s)))"

text \<open>
  The digits of a decimal literal as \<^verbatim>\<open>int(str)\<close> reads them: at least one digit, single
  underscores allowed between digits. The flag says whether the previous character was
  a digit.
\<close>

fun py_digits :: "nat \<Rightarrow> bool \<Rightarrow> string \<Rightarrow> nat option" where
  "py_digits acc prev [] = (if prev then Some acc else None)"
| "py_digits acc prev (c # cs) =
     (case digit_of c of
        Some d \<Rightarrow> py_digits (10 * acc + d) True cs
      | None \<Rightarrow> (if c = CHR ''_'' \<and> prev then py_digits acc False cs else None))"

definition int_of_string :: "string \<Rightarrow> int option" where
  "int_of_string s =
     (case strip s of
        [] \<Rightarrow> None
      | c # cs \<Rightarrow>
          (if c = CHR ''-'' then map_option (\<lambda>n. - int n) (py_digits 0 False cs)
           else if c = CHR ''+'' then map_option int (py_digits 0 False cs)
           else map_option int (py_digits 0 False (c # cs))))"

fun py_int :: "det_id \<Rightarrow> error + int" where
  "py_int (DInt i) = Inr i"
| "py_int (DStr s) =
     (case int_of_string s of
        None \<Rightarrow> Inl (ValueError ''invalid literal for int() with base 10'')
      | Some i \<Rightarrow> Inr i)"

section \<open>The label builder (\<open>labels/label_builder.py\<close>)\<close>

record label_config =
  chl_value_col :: string
  lc_threshold_ugL :: real
  label_col :: string
  strictly_greater :: bool
  label_version :: string

text \<open>
  Assignment to a key of an ordered mapping, as to a Python dict or to a column of a
  data frame: a key that exists keeps its place and gets the new value, a new key goes
  last.
\<close>

fun dict_set :: "'k \<Rightarrow> 'v \<Rightarrow> ('k \<times> 'v) list \<Rightarrow> ('k \<times> 'v) list" where
  "dict_set k v [] = [(k, v)]"
| "dict_set k v ((k', v') # kvs) = (if k = k' then (k, v) # kvs else (k', v') # dict_set k v kvs)"

text \<open>
  The frame handed to the label builder associates column names with their cells. In
  the frame it returns a column holds the cells it came with, or the integer labels, or
  one string in every row (the version and the fingerprint). The three assignments
  happen in the order of the source, so a later one replaces an earlier one made under
  the same column name.
\<close>

datatype column = Cells "vcell list" | Labels "int list" | Text string

text \<open>
  A comparison with NaN is false, so a cell that is null or does not coerce gets 0 from
  \<^verbatim>\<open>(chl > threshold).astype(int)\<close>.
\<close>

definition gt_label :: "real \<Rightarrow> real option \<Rightarrow> int" where
  "gt_label thr v = (case v of None \<Rightarrow> 0 | Some x \<Rightarrow> (if x > thr then 1 else 0))"

definition ge_label :: "real \<Rightarrow> real option \<Rightarrow> int" where
  "ge_label thr v = (case v of None \<Rightarrow> 0 | Some x \<Rightarrow> (if x \<ge> thr then 1 else 0))"

text \<open>
  The fingerprint is the SHA-256 of the canonical JSON of the configuration; the digest
  is a parameter of the model.
\<close>

definition build_from_feature_matrix ::
  "(label_config \<Rightarrow> string) \<Rightarrow> label_config \<Rightarrow> (string \<times> vcell list) list
     \<Rightarrow> error + (string \<times> column) list" where
  "build_from_feature_matrix fingerprint cfg df_feat =
     (case map_of df_feat (chl_value_col cfg) of
        None \<Rightarrow> Inl (ValueError ''Missing chlorophyll column in df_feat'')
      | Some cells \<Rightarrow>
          Inr (dict_set ''label_config_fingerprint'' (Text (fingerprint cfg))
                (dict_set ''label_version'' (Text (label_version cfg))
                  (dict_set (label_col cfg)
                     (Labels (if strictly_greater cfg
                              then map (gt_label (lc_threshold_ugL cfg)) (map to_numeric cells)
                              else map (ge_label (lc_threshold_ugL cfg)) (map to_numeric cells)))
                     (map (\<lambda>(name, cs). (name, Cells cs)) df_feat)))))"

section \<open>The feature-matrix builder (\<open>features/build_feature_matrix.py\<close>)\<close>

record feature_matrix_config =
  datetime_col :: string
  site_col :: string
  determinand_col :: string
  value_col :: string
  unit_col :: string
  determinand_cast :: string
  window_start_year :: int
  window_end_year :: int
  target_determinand_id :: det_id
  threshold_ugL :: real
  predictor_ids :: "det_id list"
  lookback_days :: int
  add_missing_flags :: bool
  add_age_days :: bool
  add_seasonality :: bool
  add_days_since_last_chl :: bool
  output_dir :: string
  snapshot_id :: "string option"
  feature_version :: string

text \<open>
  A row of the clean long-format table holds the cells under the five configured column
  names; the frame also records which column names it has. Sites are any ordered type
  (\<^verbatim>\<open>sort_values\<close> orders them).
\<close>

record 's obs =
  o_time :: tcell
  o_site :: 's
  o_det :: det_id
  o_value :: vcell
  o_unit :: string

record 's frame =
  columns :: "string list"
  rows :: "'s obs list"

text \<open>What \<^verbatim>\<open>build\<close> stores in \<^verbatim>\<open>self.artifacts\<close>; \<open>pos_rate\<close> is NaN for an empty matrix.\<close>

record artifacts =
  feature_config_fingerprint :: string
  n_rows :: nat
  n_pos :: int
  pos_rate :: "real option"

record 's builder =
  b_df :: "'s frame"
  b_config :: feature_matrix_config
  b_artifacts :: "artifacts option"

text \<open>
  Two library functions are parameters of the model: how \<^verbatim>\<open>pd.to_numeric\<close> reads a string
  of the determinand column, and the SHA-256 digest of the canonical JSON of the
  configuration.
\<close>

record lib =
  numeric_of_str :: "string \<Rightarrow> real option"
  config_digest :: "feature_matrix_config \<Rightarrow> string"

definition required_columns :: "feature_matrix_config \<Rightarrow> string list" where
  "required_columns cfg =
     [datetime_col cfg, site_col cfg, determinand_col cfg, value_col cfg, unit_col cfg]"

definition validate_inputs :: "feature_matrix_config \<Rightarrow> 's frame \<Rightarrow> error + unit" where
  "validate_inputs cfg df =
     (let missing = filter (\<lambda>c. c \<notin> set (columns df)) (required_columns cfg) in
      if missing \<noteq> [] then Inl (ValueError ''df_clean missing required columns'')
      else if determinand_cast cfg \<notin> {''str'', ''int'', ''none''}
        then Inl (ValueError ''determinand_cast must be one of: str, int, none'')
      else if window_end_year cfg < window_start_year cfg
        then Inl (ValueError ''window_end_year must be >= window_start_year'')
      else if lookback_days cfg \<le> 0
        then Inl (ValueError ''lookback_days must be > 0'')
      else Inr ())"

text \<open>\<^verbatim>\<open>FeatureMatrixBuilder.__init__\<close>: the object exists only if validation passes.\<close>

definition init :: "'s frame \<Rightarrow> feature_matrix_config \<Rightarrow> error + 's builder" where
  "init df_clean config =
     (case validate_inputs config df_clean of
        Inl e \<Rightarrow> Inl e
      | Inr _ \<Rightarrow> Inr \<lparr> b_df = df_clean, b_config = config, b_artifacts = None \<rparr>)"

subsection \<open>Determinand matching\<close>

text \<open>
  A normalised identifier: a string (\<^verbatim>\<open>astype(str)\<close>), a number or NaN
  (\<^verbatim>\<open>pd.to_numeric(errors="coerce")\<close>), or the identifier as it is.
\<close>

datatype det_norm = NStr string | NNum real | NNaN | NRaw det_id

fun det_to_numeric :: "lib \<Rightarrow> det_id \<Rightarrow> det_norm" where
  "det_to_numeric l (DInt i) = NNum (real_of_int i)"
| "det_to_numeric l (DStr s) = (case numeric_of_str l s of None \<Rightarrow> NNaN | Some r \<Rightarrow> NNum r)"

definition normalize_det ::
  "lib \<Rightarrow> feature_matrix_config \<Rightarrow> det_id list \<Rightarrow> det_id \<Rightarrow> error + det_norm list \<times> det_norm" where
  "normalize_det l cfg series target =
     (let cast = determinand_cast cfg in
      if cast = ''str'' then Inr (map (\<lambda>d. NStr (py_str d)) series, NStr (py_str target))
      else if cast = ''int'' then
        (case py_int target of
           Inl e \<Rightarrow> Inl e
         | Inr k \<Rightarrow> Inr (map (det_to_numeric l) series, NNum (real_of_int k)))
      else Inr (map NRaw series, NRaw target))"

text \<open>Elementwise \<^verbatim>\<open>==\<close>: NaN equals nothing.\<close>

definition norm_eq :: "det_norm \<Rightarrow> det_norm \<Rightarrow> bool" where
  "norm_eq a b = (a \<noteq> NNaN \<and> b \<noteq> NNaN \<and> a = b)"

subsection \<open>The year window\<close>

definition ns_per_day :: int where
  "ns_per_day = 86400 * 1000000000"

text \<open>
  The calendar year (proleptic Gregorian, UTC) of a timestamp, as \<^verbatim>\<open>.dt.year\<close>: the day
  number is shifted to an era of 400 years starting on 1 March, \<open>doe\<close> is the day of the
  era, \<open>yoe\<close> the year of the era, and a month index of 10 or 11 (January, February)
  belongs to the next calendar year.
\<close>

definition yoe_of :: "int \<Rightarrow> int" where
  "yoe_of doe = (doe - doe div 1460 + doe div 36524 - doe div 146096) div 365"

definition month_index :: "int \<Rightarrow> int \<Rightarrow> int" where
  "month_index doe yoe = (5 * (doe - (365 * yoe + yoe div 4 - yoe div 100)) + 2) div 153"

definition year_from :: "int \<Rightarrow> int \<Rightarrow> int \<Rightarrow> int" where
  "year_from era doe yoe = yoe + era * 400 + (if month_index doe yoe < 10 then 0 else 1)"

definition civil_year :: "int \<Rightarrow> int" where
  "civil_year z = year_from (z div 146097) (z mod 146097) (yoe_of (z mod 146097))"

definition year_of :: "int \<Rightarrow> int" where
  "year_of t = civil_year (t div ns_per_day + 719468)"

text \<open>A row whose timestamp parsed.\<close>

record 's wobs =
  w_time :: int
  w_site :: 's
  w_det :: det_id
  w_value :: vcell

definition parse_row :: "'s obs \<Rightarrow> 's wobs option" where
  "parse_row r =
     map_option (\<lambda>t. \<lparr> w_time = t, w_site = o_site r, w_det = o_det r, w_value = o_value r \<rparr>)
       (to_datetime (o_time r))"

definition in_window :: "feature_matrix_config \<Rightarrow> 's wobs \<Rightarrow> bool" where
  "in_window cfg w =
     (window_start_year cfg \<le> year_of (w_time w) \<and> year_of (w_time w) \<le> window_end_year cfg)"

definition filter_window :: "feature_matrix_config \<Rightarrow> 's obs list \<Rightarrow> 's wobs list" where
  "filter_window cfg df = filter (in_window cfg) (List.map_filter parse_row df)"

text \<open>Rows of the window whose normalised determinand equals the normalised identifier.\<close>

definition select_det ::
  "lib \<Rightarrow> feature_matrix_config \<Rightarrow> 's wobs list \<Rightarrow> det_id \<Rightarrow> error + 's wobs list" where
  "select_det l cfg dfw ident =
     (case normalize_det l cfg (map w_det dfw) ident of
        Inl e \<Rightarrow> Inl e
      | Inr (det_norm, ident_norm) \<Rightarrow>
          Inr (map snd (filter (\<lambda>(d, r). norm_eq d ident_norm) (zip det_norm dfw))))"

subsection \<open>Anchors and predictor series\<close>

record pred_cols =
  p_value :: "real option"
  p_time :: "int option"
  p_age_days :: "real option option"
  p_is_missing :: "int option"

text \<open>
  A row of the feature frame. The predictor columns are kept per feature name, in the
  order they were joined; a column the configuration switches off is absent (\<open>None\<close>
  outside). The seasonality columns are functions of the row's own timestamp and are
  left out of the model.
\<close>

record 's frow =
  f_site :: 's
  f_time :: int
  chl_ugL :: real
  y :: int
  f_preds :: "(string \<times> pred_cols) list"
  days_since_last_chl :: "real option option"

record 's feat_frame =
  ff_names :: "string list"
  ff_rows :: "'s frow list"

record 's pobs =
  ps_site :: 's
  ps_time :: int
  ps_value :: real

definition anchor_row :: "feature_matrix_config \<Rightarrow> 's wobs \<Rightarrow> 's frow option" where
  "anchor_row cfg w =
     map_option (\<lambda>v. \<lparr> f_site = w_site w, f_time = w_time w, chl_ugL = v,
                        y = gt_label (threshold_ugL cfg) (Some v),
                        f_preds = [], days_since_last_chl = None \<rparr>)
       (to_numeric (w_value w))"

definition build_target_anchor :: "lib \<Rightarrow> 's::linorder builder \<Rightarrow> error + 's feat_frame" where
  "build_target_anchor l b =
     (let cfg = b_config b;
          dfw = filter_window cfg (rows (b_df b)) in
      case select_det l cfg dfw (target_determinand_id cfg) of
        Inl e \<Rightarrow> Inl e
      | Inr df_t \<Rightarrow>
          Inr \<lparr> ff_names = [],
                ff_rows = sort_key (\<lambda>r. (f_site r, f_time r))
                            (List.map_filter (anchor_row cfg) df_t) \<rparr>)"

definition pred_row :: "'s wobs \<Rightarrow> 's pobs option" where
  "pred_row w =
     map_option (\<lambda>v. \<lparr> ps_site = w_site w, ps_time = w_time w, ps_value = v \<rparr>)
       (to_numeric (w_value w))"

definition extract_predictor_series ::
  "lib \<Rightarrow> 's::linorder builder \<Rightarrow> det_id \<Rightarrow> error + 's pobs list" where
  "extract_predictor_series l b determinand_id =
     (let cfg = b_config b;
          dfw = filter_window cfg (rows (b_df b)) in
      case select_det l cfg dfw determinand_id of
        Inl e \<Rightarrow> Inl e
      | Inr d \<Rightarrow> Inr (sort_key (\<lambda>r. (ps_site r, ps_time r)) (List.map_filter pred_row d)))"

subsection \<open>The backward as-of join\<close>

text \<open>
  \<^verbatim>\<open>pd.merge_asof(a, p, left_on, right_on, by, direction="backward",
  allow_exact_matches=True)\<close>. pandas refuses frames whose \<open>on\<close> keys are not
  non-decreasing over the whole frame, whatever the \<open>by\<close> column holds. Otherwise every
  left row is kept, in order, with the last right row of the same \<open>by\<close> value whose key
  is at most the left key, if there is one.
\<close>

definition asof_match :: "'s pobs list \<Rightarrow> 's \<Rightarrow> int \<Rightarrow> 's pobs option" where
  "asof_match p s t =
     (case filter (\<lambda>r. ps_site r = s \<and> ps_time r \<le> t) p of
        [] \<Rightarrow> None
      | r # rs \<Rightarrow> Some (last (r # rs)))"

definition merge_asof ::
  "'s frow list \<Rightarrow> 's pobs list \<Rightarrow> error + ('s frow \<times> 's pobs option) list" where
  "merge_asof a p =
     (if \<not> sorted (map f_time a) then Inl (ValueError ''left keys must be sorted'')
      else if \<not> sorted (map ps_time p) then Inl (ValueError ''right keys must be sorted'')
      else Inr (map (\<lambda>row. (row, asof_match p (f_site row) (f_time row))) a))"

text \<open>\<^verbatim>\<open>(anchor_time - predictor_time).dt.total_seconds() / 86400.0\<close>\<close>

definition age_days :: "int \<Rightarrow> int \<Rightarrow> real" where
  "age_days t_anchor t_pred = real_of_int (t_anchor - t_pred) / 1000000000 / 86400"

text \<open>
  The columns of one predictor for one merged row: the age, the lookback enforcement
  (a comparison with a NaN age is false) and the missingness flag.
\<close>

definition pred_cols_of :: "feature_matrix_config \<Rightarrow> int \<Rightarrow> 's pobs option \<Rightarrow> pred_cols" where
  "pred_cols_of cfg t m =
     (let age = map_option (\<lambda>r. age_days t (ps_time r)) m;
          stale = (case age of None \<Rightarrow> False | Some a \<Rightarrow> a > real_of_int (lookback_days cfg));
          v = (if stale then None else map_option ps_value m)
      in \<lparr> p_value = v,
           p_time = (if stale then None else map_option ps_time m),
           p_age_days = (if add_age_days cfg then Some (if stale then None else age) else None),
           p_is_missing = (if add_missing_flags cfg
                           then Some (if v = None then 1 else 0) else None) \<rparr>)"

definition join_row ::
  "feature_matrix_config \<Rightarrow> string \<Rightarrow> 's frow \<times> 's pobs option \<Rightarrow> 's frow" where
  "join_row cfg feature_name lm =
     (case lm of (row, m) \<Rightarrow>
        row \<lparr> f_preds := f_preds row @ [(feature_name, pred_cols_of cfg (f_time row) m)] \<rparr>)"

text \<open>
  When the anchor frame already has columns of this feature name, pandas suffixes both
  copies and \<^verbatim>\<open>merged[f"{feature_name}__time"]\<close> raises.
\<close>

definition merge_asof_backward ::
  "feature_matrix_config \<Rightarrow> 's::linorder feat_frame \<Rightarrow> 's pobs list \<Rightarrow> string
     \<Rightarrow> error + 's feat_frame" where
  "merge_asof_backward cfg anchor pred feature_name =
     (let a = sort_key (\<lambda>r. (f_site r, f_time r)) (ff_rows anchor);
          p = sort_key (\<lambda>r. (ps_site r, ps_time r)) pred in
      case merge_asof a p of
        Inl e \<Rightarrow> Inl e
      | Inr merged \<Rightarrow>
          if feature_name \<in> set (ff_names anchor) then Inl (KeyError (feature_name @ ''__time''))
          else Inr \<lparr> ff_names = ff_names anchor @ [feature_name],
                     ff_rows = map (join_row cfg feature_name) merged \<rparr>)"

subsection \<open>Time features and assembly\<close>

definition prev_time :: "'s frow list \<Rightarrow> 's \<Rightarrow> int option" where
  "prev_time seen s =
     (case filter (\<lambda>r. f_site r = s) seen of
        [] \<Rightarrow> None
      | r # rs \<Rightarrow> Some (f_time (last (r # rs))))"

text \<open>\<^verbatim>\<open>groupby(site)[time].diff()\<close> in days: the rows already seen are the first argument.\<close>

fun since_last :: "'s frow list \<Rightarrow> 's frow list \<Rightarrow> 's frow list" where
  "since_last seen [] = []"
| "since_last seen (r # rs) =
     r \<lparr> days_since_last_chl :=
           Some (map_option (age_days (f_time r)) (prev_time seen (f_site r))) \<rparr>
       # since_last (seen @ [r]) rs"

definition add_time_features ::
  "feature_matrix_config \<Rightarrow> 's::linorder feat_frame \<Rightarrow> 's feat_frame" where
  "add_time_features cfg df =
     (if add_days_since_last_chl cfg
      then df \<lparr> ff_rows := since_last [] (sort_key (\<lambda>r. (f_site r, f_time r)) (ff_rows df)) \<rparr>
      else df)"

definition feature_name_of :: "det_id \<Rightarrow> string" where
  "feature_name_of pid = ''det_'' @ py_str pid"

text \<open>The loop of \<^verbatim>\<open>build\<close> over \<^verbatim>\<open>cfg.predictor_ids\<close>; the first exception ends it.\<close>

fun merge_predictors ::
  "lib \<Rightarrow> 's::linorder builder \<Rightarrow> 's feat_frame \<Rightarrow> det_id list \<Rightarrow> error + 's feat_frame" where
  "merge_predictors l b df_feat [] = Inr df_feat"
| "merge_predictors l b df_feat (pid # pids) =
     (case extract_predictor_series l b pid of
        Inl e \<Rightarrow> Inl e
      | Inr pred \<Rightarrow>
          (case merge_asof_backward (b_config b) df_feat pred (feature_name_of pid) of
             Inl e \<Rightarrow> Inl e
           | Inr df_feat' \<Rightarrow> merge_predictors l b df_feat' pids))"

record 's feature_matrix =
  fm_names :: "string list"
  fm_rows :: "'s frow list"
  fm_feature_version :: string
  fm_feature_config_fingerprint :: string
  fm_snapshot_id :: "string option"

definition make_config_fingerprint :: "lib \<Rightarrow> 's builder \<Rightarrow> string" where
  "make_config_fingerprint l b = config_digest l (b_config b)"

definition mean_y :: "'s frow list \<Rightarrow> real option" where
  "mean_y rs = (if rs = [] then None
                else Some (real_of_int (sum_list (map y rs)) / real (length rs)))"

text \<open>
  \<^verbatim>\<open>build\<close> returns the matrix and leaves the run's counts in the builder; an exception
  leaves the builder as it was.
\<close>

definition build :: "lib \<Rightarrow> 's::linorder builder \<Rightarrow> (error + 's feature_matrix) \<times> 's builder" where
  "build l b =
     (let cfg = b_config b;
          fingerprint = make_config_fingerprint l b in
      case build_target_anchor l b of
        Inl e \<Rightarrow> (Inl e, b)
      | Inr anchor \<Rightarrow>
          (case merge_predictors l b anchor (predictor_ids cfg) of
             Inl e \<Rightarrow> (Inl e, b)
           | Inr merged \<Rightarrow>
               (let df_feat = add_time_features cfg merged;
                    sorted_rows = sort_key (\<lambda>r. (f_site r, f_time r)) (ff_rows df_feat)
                in (Inr \<lparr> fm_names = ff_names df_feat,
                          fm_rows = sorted_rows,
                          fm_feature_version = feature_version cfg,
                          fm_feature_config_fingerprint = fingerprint,
                          fm_snapshot_id = snapshot_id cfg \<rparr>,
                    b \<lparr> b_artifacts :=
                          Some \<lparr> feature_config_fingerprint = fingerprint,
                                 n_rows = length sorted_rows,
                                 n_pos = sum_list (map y sorted_rows),
                                 pos_rate = mean_y sorted_rows \<rparr> \<rparr>))))"

text \<open>\<^verbatim>\<open>build_feature_matrix(df_clean, config)\<close>: construct, then build.\<close>

definition build_feature_matrix ::
  "lib \<Rightarrow> 's::linorder frame \<Rightarrow> feature_matrix_config \<Rightarrow> error + 's feature_matrix" where
  "build_feature_matrix l df_clean cfg =
     (case init df_clean cfg of
        Inl e \<Rightarrow> Inl e
      | Inr builder \<Rightarrow> fst (build l builder))"

section \<open>Shifted rolling means (\<open>features/feature_builder.py\<close>)\<close>

text \<open>\<^verbatim>\<open>s.shift(1)\<close>: every value moves one position down, the first position is NaN.\<close>

definition shift1 :: "'a option list \<Rightarrow> 'a option list" where
  "shift1 s = (if s = [] then [] else None # butlast s)"

definition mean_opt :: "real list \<Rightarrow> real option" where
  "mean_opt vs = (if vs = [] then None else Some (sum_list vs / real (length vs)))"

text \<open>
  \<^verbatim>\<open>s.rolling(window=w, min_periods=1).mean()\<close> for an integer window \<open>w \<ge> 1\<close>: at position
  \<open>i\<close> the window is the positions \<open>i - w + 1 .. i\<close> that exist; the mean is taken over its
  non-null values and is NaN when there is none.
\<close>

definition window_at :: "nat \<Rightarrow> 'a list \<Rightarrow> nat \<Rightarrow> 'a list" where
  "window_at w s i = drop (Suc i - w) (take (Suc i) s)"

definition rolling_mean :: "nat \<Rightarrow> real option list \<Rightarrow> real option list" where
  "rolling_mean w s = map (\<lambda>i. mean_opt (List.map_filter id (window_at w s i))) [0..<length s]"

text \<open>
  The loop over \<open>windows\<close>. pandas raises for a negative window, and for the window 0
  because \<open>min_periods\<close> 1 exceeds it.
\<close>

fun roll_loop ::
  "string \<Rightarrow> real option list \<Rightarrow> int list \<Rightarrow> (string \<times> real option list) list
     \<Rightarrow> error + (string \<times> real option list) list" where
  "roll_loop prefix s_shifted [] out = Inr out"
| "roll_loop prefix s_shifted (w # ws) out =
     (if w < 1 then Inl (ValueError ''min_periods 1 must be <= window'')
      else roll_loop prefix s_shifted ws
             (dict_set (prefix @ ''_'' @ str_int w) (rolling_mean (nat w) s_shifted) out))"

text \<open>A frame here is the association of column names with their cells.\<close>

definition rolling_mean_features ::
  "(string \<times> vcell list) list \<Rightarrow> string \<Rightarrow> int list \<Rightarrow> string
     \<Rightarrow> error + (string \<times> real option list) list" where
  "rolling_mean_features df col windows prefix =
     (case map_of df col of
        None \<Rightarrow> Inl (KeyError col)
      | Some cells \<Rightarrow>
          (let s = map to_numeric cells;
               s_shifted = shift1 s
           in roll_loop prefix s_shifted windows []))"

section \<open>The clean layer's determinand filter (\<open>clean/builder.py\<close>)\<close>

text \<open>\<^verbatim>\<open>str(x).strip().lstrip("0") or "0"\<close>\<close>

definition clean_norm :: "det_id \<Rightarrow> string" where
  "clean_norm d =
     (let s = dropWhile (\<lambda>c. c = CHR ''0'') (strip (py_str d)) in if s = [] then ''0'' else s)"

text \<open>
  A row is its determinand cell and the rest; the kept rows get the normalised
  identifier as \<^verbatim>\<open>_det_id_norm\<close>.
\<close>

definition filter_determinands :: "det_id list \<Rightarrow> (det_id \<times> 'a) list \<Rightarrow> (det_id \<times> 'a \<times> string) list" where
  "filter_determinands determinand_ids df =
     (let wanted = set (map clean_norm determinand_ids) in
      map (\<lambda>(d, rest). (d, rest, clean_norm d))
        (filter (\<lambda>(d, rest). clean_norm d \<in> wanted) df))"

section \<open>Notions used in the statements\<close>

text \<open>
  The columns a predictor series contributes to a row: those of the row's backward as-of
  match in the series, after lookback enforcement.
\<close>

definition joined_cols :: "feature_matrix_config \<Rightarrow> 's pobs list \<Rightarrow> 's frow \<Rightarrow> pred_cols" where
  "joined_cols cfg pred row =
     pred_cols_of cfg (f_time row) (asof_match pred (f_site row) (f_time row))"

text \<open>
  The series of an analyte in the words of the specification: a row of the table
  belongs to it when its timestamp parses, its calendar year lies in the window, its
  determinand equals the (normalised) identifier under the configured comparison, and
  its value is numeric. The anchors are the series of the target analyte.
\<close>

definition norm_cell :: "lib \<Rightarrow> feature_matrix_config \<Rightarrow> det_id \<Rightarrow> det_norm" where
  "norm_cell l cfg d =
     (if determinand_cast cfg = ''str'' then NStr (py_str d)
      else if determinand_cast cfg = ''int'' then det_to_numeric l d
      else NRaw d)"

definition in_series ::
  "lib \<Rightarrow> feature_matrix_config \<Rightarrow> det_norm \<Rightarrow> 's obs \<Rightarrow> bool" where
  "in_series l cfg ident_norm r =
     (case to_datetime (o_time r) of
        None \<Rightarrow> False
      | Some t \<Rightarrow>
          window_start_year cfg \<le> year_of t \<and> year_of t \<le> window_end_year cfg
          \<and> norm_eq (norm_cell l cfg (o_det r)) ident_norm
          \<and> to_numeric (o_value r) \<noteq> None)"

text \<open>
  An observation of an analyte at site \<open>s\<close> at or before the time \<open>t0\<close>: a row of the
  analyte's series at that site whose timestamp is at most \<open>t0\<close>.
\<close>

definition earlier_obs ::
  "lib \<Rightarrow> feature_matrix_config \<Rightarrow> det_norm \<Rightarrow> 's \<Rightarrow> int \<Rightarrow> 's obs \<Rightarrow> bool" where
  "earlier_obs l cfg ident_norm s t0 r =
     (in_series l cfg ident_norm r \<and> o_site r = s
      \<and> (case to_datetime (o_time r) of None \<Rightarrow> False | Some t \<Rightarrow> t \<le> t0))"

text \<open>
  The names of the columns \<^verbatim>\<open>build\<close> reads and writes: the site, time, determinand and
  value columns of the table, the \<^verbatim>\<open>year\<close> column of the window filter, the two anchor
  columns, four columns per predictor, the time features and the governance columns.
  Where two of them coincide (a predictor identifier that ends in "__age_days", a site
  column called "year" or "y") one assignment lands on another's column; the statement
  about the joined values is made for configurations where they are pairwise distinct.
\<close>

definition derived_columns :: "string \<Rightarrow> string list" where
  "derived_columns feature_name =
     [feature_name, feature_name @ ''__time'', feature_name @ ''__age_days'',
      feature_name @ ''__is_missing'']"

definition build_columns :: "feature_matrix_config \<Rightarrow> string list" where
  "build_columns cfg =
     [site_col cfg, datetime_col cfg, determinand_col cfg, value_col cfg, ''year'',
      ''chl_ugL'', ''y'']
     @ concat (map (\<lambda>pid. derived_columns (feature_name_of pid)) (predictor_ids cfg))
     @ [''month_sin'', ''month_cos'', ''doy_sin'', ''doy_cos'', ''days_since_last_chl'',
        ''feature_version'', ''feature_config_fingerprint'', ''snapshot_id'']"

section \<open>Default configurations\<close>

text \<open>The defaults of the two configuration dataclasses.\<close>

definition default_config :: feature_matrix_config where
  "default_config =
     \<lparr> datetime_col = ''phenomenonTime'',
       site_col = ''samplingPoint.notation'',
       determinand_col = ''determinand.notation'',
       value_col = ''result'',
       unit_col = ''unit'',
       determinand_cast = ''str'',
       window_start_year = 2005,
       window_end_year = 2025,
       target_determinand_id = DInt 7887,
       threshold_ugL = 20,
       predictor_ids = [DInt 348, DInt 9686, DInt 61],
       lookback_days = 30,
       add_missing_flags = True,
       add_age_days = True,
       add_seasonality = True,
       add_days_since_last_chl = True,
       output_dir = ''data/features'',
       snapshot_id = None,
       feature_version = ''FEAT_V1'' \<rparr>"

definition default_label_config :: label_config where
  "default_label_config =
     \<lparr> chl_value_col = ''chl_ugL'', lc_threshold_ugL = 20, label_col = ''y'',
       strictly_greater = True, label_version = ''LBL_V1'' \<rparr>"

section \<open>Sample inputs\<close>

text \<open>A small increasing series for the rolling features.\<close>

definition sample_series :: "(string \<times> vcell list) list" where
  "sample_series = [(''chl'', [VNum 1, VNum 2, VNum 4, VNum 8])]"

text \<open>The column names of a table with the default layout.\<close>

definition full_columns :: "string list" where
  "full_columns = [''samplingPoint.notation'', ''phenomenonTime'', ''determinand.notation'',
                   ''result'', ''unit'']"

text \<open>
  A stand-in for the two library functions in the examples: a string of the
  determinand column reads as a number when it is a decimal integer literal, and the
  digest is a fixed string.
\<close>

definition sample_lib :: lib where
  "sample_lib = \<lparr> numeric_of_str = (\<lambda>s. map_option real_of_int (int_of_string s)),
                   config_digest = (\<lambda>cfg. ''digest'') \<rparr>"

text \<open>Midnight UTC of the \<open>d\<close>-th day of January 2005, in nanoseconds since the epoch.\<close>

definition jan2005 :: "int \<Rightarrow> int" where
  "jan2005 d = (12783 + d) * ns_per_day"

text \<open>A table whose only row carries the identifier "61".\<close>

definition ident_table :: "string frame" where
  "ident_table =
     \<lparr> columns = full_columns,
       rows = [\<lparr> o_time = TStamp (jan2005 10), o_site = ''A'', o_det = DStr ''61'',
                  o_value = VNum 1, o_unit = ''mg/L'' \<rparr>] \<rparr>"

definition ident_builder :: "string \<Rightarrow> string builder" where
  "ident_builder cast =
     \<lparr> b_df = ident_table, b_config = default_config \<lparr> determinand_cast := cast \<rparr>,
       b_artifacts = None \<rparr>"

text \<open>A table that spells the same analyte three ways.\<close>

definition mixed_table :: "string frame" where
  "mixed_table =
     \<lparr> columns = full_columns,
       rows = [\<lparr> o_time = TStamp (jan2005 1), o_site = ''A'', o_det = DStr ''061'',
                  o_value = VNum 1, o_unit = ''phu'' \<rparr>,
               \<lparr> o_time = TStamp (jan2005 2), o_site = ''A'', o_det = DStr ''61'',
                  o_value = VNum 2, o_unit = ''phu'' \<rparr>,
               \<lparr> o_time = TStamp (jan2005 3), o_site = ''A'', o_det = DInt 61,
                  o_value = VNum 3, o_unit = ''phu'' \<rparr>,
               \<lparr> o_time = TStamp (jan2005 4), o_site = ''A'', o_det = DStr ''7887'',
                  o_value = VNum 4, o_unit = ''ug/L'' \<rparr>] \<rparr>"

definition mixed_builder :: "string \<Rightarrow> string builder" where
  "mixed_builder cast =
     \<lparr> b_df = mixed_table, b_config = default_config \<lparr> determinand_cast := cast \<rparr>,
       b_artifacts = None \<rparr>"

text \<open>
  The lookback test of the repository (anchor on 10 January, predictor on 1 January,
  lookback 5 days), with a second anchor that has a fresh predictor value.
\<close>

definition lookback_table :: "string frame" where
  "lookback_table =
     \<lparr> columns = full_columns,
       rows = [\<lparr> o_time = TStamp (jan2005 1), o_site = ''A'', o_det = DStr ''348'',
                  o_value = VNum 1, o_unit = ''mg/L'' \<rparr>,
               \<lparr> o_time = TStamp (jan2005 10), o_site = ''A'', o_det = DStr ''7887'',
                  o_value = VNum 25, o_unit = ''ug/L'' \<rparr>,
               \<lparr> o_time = TStamp (jan2005 18), o_site = ''A'', o_det = DStr ''348'',
                  o_value = VNum 7, o_unit = ''mg/L'' \<rparr>,
               \<lparr> o_time = TStamp (jan2005 20), o_site = ''A'', o_det = DStr ''7887'',
                  o_value = VNum 30, o_unit = ''ug/L'' \<rparr>] \<rparr>"

definition lookback_config :: feature_matrix_config where
  "lookback_config =
     default_config \<lparr> target_determinand_id := DStr ''7887'', predictor_ids := [DStr ''348''],
                      lookback_days := 5, snapshot_id := Some ''test_snap'' \<rparr>"

definition lookback_builder :: "string builder" where
  "lookback_builder = \<lparr> b_df = lookback_table, b_config = lookback_config, b_artifacts = None \<rparr>"

definition stale_row :: "string frow" where
  "stale_row =
     \<lparr> f_site = ''A'', f_time = jan2005 10, chl_ugL = 25, y = 1,
       f_preds = [(''det_348'', \<lparr> p_value = None, p_time = None, p_age_days = Some None,
                                  p_is_missing = Some 1 \<rparr>)],
       days_since_last_chl = Some None \<rparr>"

definition fresh_row :: "string frow" where
  "fresh_row =
     \<lparr> f_site = ''A'', f_time = jan2005 20, chl_ugL = 30, y = 1,
       f_preds = [(''det_348'', \<lparr> p_value = Some 7, p_time = Some (jan2005 18),
                                  p_age_days = Some (Some 2), p_is_missing = Some 0 \<rparr>)],
       days_since_last_chl = Some (Some 10) \<rparr>"

text \<open>
  Two sites whose samples interleave in time: site A is sampled on 9 and 10 January,
  site B on 1 January.
\<close>

definition two_site_table :: "string frame" where
  "two_site_table =
     \<lparr> columns = full_columns,
       rows = [\<lparr> o_time = TStamp (jan2005 9), o_site = ''A'', o_det = DStr ''348'',
                  o_value = VNum 1, o_unit = ''mg/L'' \<rparr>,
               \<lparr> o_time = TStamp (jan2005 10), o_site = ''A'', o_det = DStr ''7887'',
                  o_value = VNum 25, o_unit = ''ug/L'' \<rparr>,
               \<lparr> o_time = TStamp (jan2005 1), o_site = ''B'', o_det = DStr ''7887'',
                  o_value = VNum 5, o_unit = ''ug/L'' \<rparr>] \<rparr>"

definition two_site_builder :: "det_id list \<Rightarrow> string builder" where
  "two_site_builder pids =
     \<lparr> b_df = two_site_table, b_config = lookback_config \<lparr> predictor_ids := pids \<rparr>,
       b_artifacts = None \<rparr>"

text \<open>
  A predictor sample on 31 December 2004, just outside the window that starts in 2005,
  followed by an anchor on 1 January, a predictor sample on 3 January and an anchor on
  4 January.
\<close>

definition edge_table :: "string frame" where
  "edge_table =
     \<lparr> columns = full_columns,
       rows = [\<lparr> o_time = TStamp (jan2005 0), o_site = ''A'', o_det = DStr ''348'',
                  o_value = VNum 3, o_unit = ''mg/L'' \<rparr>,
               \<lparr> o_time = TStamp (jan2005 1), o_site = ''A'', o_det = DStr ''7887'',
                  o_value = VNum 25, o_unit = ''ug/L'' \<rparr>,
               \<lparr> o_time = TStamp (jan2005 3), o_site = ''A'', o_det = DStr ''348'',
                  o_value = VNum 7, o_unit = ''mg/L'' \<rparr>,
               \<lparr> o_time = TStamp (jan2005 4), o_site = ''A'', o_det = DStr ''7887'',
                  o_value = VNum 30, o_unit = ''ug/L'' \<rparr>] \<rparr>"

definition edge_builder :: "string builder" where
  "edge_builder = \<lparr> b_df = edge_table, b_config = lookback_config, b_artifacts = None \<rparr>"

definition unmatched_row :: "string frow" where
  "unmatched_row =
     \<lparr> f_site = ''A'', f_time = jan2005 1, chl_ugL = 25, y = 1,
       f_preds = [(''det_348'', \<lparr> p_value = None, p_time = None, p_age_days = Some None,
                                  p_is_missing = Some 1 \<rparr>)],
       days_since_last_chl = Some None \<rparr>"

definition matched_row :: "string frow" where
  "matched_row =
     \<lparr> f_site = ''A'', f_time = jan2005 4, chl_ugL = 30, y = 1,
       f_preds = [(''det_348'', \<lparr> p_value = Some 7, p_time = Some (jan2005 3),
                                  p_age_days = Some (Some 1), p_is_missing = Some 0 \<rparr>)],
       days_since_last_chl = Some (Some 3) \<rparr>"

section \<open>The label rule\<close>

lemma map_of_dict_set:
  "map_of (dict_set k v kvs) k' = (if k' = k then Some v else map_of kvs k')"
  by (induction kvs) auto


lemma labels_map:
  fixes cfg :: label_config
  assumes "map_of df (chl_value_col cfg) = Some cells"
    and "label_col cfg \<noteq> ''label_version''"
    and "label_col cfg \<noteq> ''label_config_fingerprint''"
  shows "\<exists>out. build_from_feature_matrix fp cfg df = Inr out
           \<and> map_of out (label_col cfg) =
               Some (Labels (map (\<lambda>c. (if strictly_greater cfg then gt_label else ge_label)
                                        (lc_threshold_ugL cfg) (to_numeric c)) cells))"
  using assms by (simp add: build_from_feature_matrix_def map_of_dict_set)

text \<open>
  Counterexample to claim C7 as stated. With the label column named "label_version",
  strict mode and threshold 20.0, the values 19.9, 20.0, 20.1 do not come back with the
  labels 0, 0, 1: the column the labels were written to holds the version string in
  every row, because the version is assigned to the same column afterwards.
\<close>

theorem label_column_overwritten:
  "build_from_feature_matrix (\<lambda>c. ''digest'')
     (default_label_config \<lparr> label_col := ''label_version'' \<rparr>)
     [(''chl_ugL'', [VNum 19.9, VNum 20.0, VNum 20.1])]
   = Inr [(''chl_ugL'', Cells [VNum 19.9, VNum 20.0, VNum 20.1]),
          (''label_version'', Text ''LBL_V1''),
          (''label_config_fingerprint'', Text ''digest'')]"
  by (simp add: build_from_feature_matrix_def default_label_config_def)

text \<open>
  Claim C7, amended. When the label column is named neither "label_version" nor
  "label_config_fingerprint", the label builder returns, on a frame that has the
  chlorophyll column, a frame whose label column holds one integer label per row, and
  for a numeric value the label is 1 exactly when the value is strictly greater than
  the threshold (strict mode) or at least the threshold (non-strict mode), and 0
  otherwise. With the default column names, threshold 20.0 and strict mode the values
  19.9, 20.0, 20.1 get the labels 0, 0, 1. The label stamped on an anchor row of the
  feature matrix follows the strict rule too.
\<close>

theorem label_rule:
  "(\<forall>fp (cfg :: label_config) df cells.
      map_of df (chl_value_col cfg) = Some cells
      \<and> label_col cfg \<noteq> ''label_version'' \<and> label_col cfg \<noteq> ''label_config_fingerprint'' \<longrightarrow>
      (\<exists>out labels. build_from_feature_matrix fp cfg df = Inr out
         \<and> map_of out (label_col cfg) = Some (Labels labels)
         \<and> length labels = length cells
         \<and> (\<forall>i < length cells. \<forall>v. to_numeric (cells ! i) = Some v \<longrightarrow>
               (strictly_greater cfg \<longrightarrow> (labels ! i = 1 \<longleftrightarrow> v > lc_threshold_ugL cfg))
             \<and> (\<not> strictly_greater cfg \<longrightarrow> (labels ! i = 1 \<longleftrightarrow> v \<ge> lc_threshold_ugL cfg))
             \<and> (labels ! i = 0 \<or> labels ! i = 1))))
   \<and> (\<forall>fp. map_sum id (\<lambda>out. map_of out ''y'')
          (build_from_feature_matrix fp default_label_config
             [(''chl_ugL'', [VNum 19.9, VNum 20.0, VNum 20.1])])
        = Inr (Some (Labels [0, 0, 1])))
   \<and> (\<forall>(cfg :: feature_matrix_config) (w :: 's wobs) r.
         anchor_row cfg w = Some r \<longrightarrow> (y r = 1 \<longleftrightarrow> chl_ugL r > threshold_ugL cfg))"
proof (intro conjI allI impI)
  fix fp and cfg :: label_config and df :: "(string \<times> vcell list) list" and cells
  assume a: "map_of df (chl_value_col cfg) = Some cells
      \<and> label_col cfg \<noteq> ''label_version'' \<and> label_col cfg \<noteq> ''label_config_fingerprint''"
  define labels where
    "labels = map (\<lambda>c. (if strictly_greater cfg then gt_label else ge_label)
                          (lc_threshold_ugL cfg) (to_numeric c)) cells"
  from a labels_map [of df cfg cells fp] obtain out where
    o: "build_from_feature_matrix fp cfg df = Inr out"
    and l: "map_of out (label_col cfg) = Some (Labels labels)"
    unfolding labels_def by blast
  have n: "length labels = length cells" by (simp add: labels_def)
  have r: "\<forall>i < length cells. \<forall>v. to_numeric (cells ! i) = Some v \<longrightarrow>
               (strictly_greater cfg \<longrightarrow> (labels ! i = 1 \<longleftrightarrow> v > lc_threshold_ugL cfg))
             \<and> (\<not> strictly_greater cfg \<longrightarrow> (labels ! i = 1 \<longleftrightarrow> v \<ge> lc_threshold_ugL cfg))
             \<and> (labels ! i = 0 \<or> labels ! i = 1)"
    by (auto simp: labels_def gt_label_def ge_label_def)
  from o l n r show "\<exists>out labels. build_from_feature_matrix fp cfg df = Inr out
         \<and> map_of out (label_col cfg) = Some (Labels labels)
         \<and> length labels = length cells
         \<and> (\<forall>i < length cells. \<forall>v. to_numeric (cells ! i) = Some v \<longrightarrow>
               (strictly_greater cfg \<longrightarrow> (labels ! i = 1 \<longleftrightarrow> v > lc_threshold_ugL cfg))
             \<and> (\<not> strictly_greater cfg \<longrightarrow> (labels ! i = 1 \<longleftrightarrow> v \<ge> lc_threshold_ugL cfg))
             \<and> (labels ! i = 0 \<or> labels ! i = 1))"
    by blast
next
  fix fp
  show "map_sum id (\<lambda>out. map_of out ''y'')
          (build_from_feature_matrix fp default_label_config
             [(''chl_ugL'', [VNum 19.9, VNum 20.0, VNum 20.1])])
        = Inr (Some (Labels [0, 0, 1]))"
    by (simp add: build_from_feature_matrix_def default_label_config_def gt_label_def)
next
  fix cfg :: feature_matrix_config and w :: "'s wobs" and r
  assume "anchor_row cfg w = Some r"
  then show "y r = 1 \<longleftrightarrow> chl_ugL r > threshold_ugL cfg"
    by (auto simp: anchor_row_def gt_label_def split: if_splits)
qed

theorem label_rule_witness:
  "map_of [(''chl_ugL'', [VNum 20, VNum 25])] (chl_value_col default_label_config)
     = Some [VNum 20, VNum 25]
   \<and> label_col default_label_config \<noteq> ''label_version''
   \<and> label_col default_label_config \<noteq> ''label_config_fingerprint''
   \<and> to_numeric ([VNum 20, VNum 25] ! 1) = Some 25
   \<and> strictly_greater default_label_config
   \<and> (\<exists>out labels. build_from_feature_matrix (\<lambda>c. ''digest'') default_label_config
                       [(''chl_ugL'', [VNum 20, VNum 25])] = Inr out
          \<and> map_of out (label_col default_label_config) = Some (Labels labels)
          \<and> labels ! 0 = 0 \<and> labels ! 1 = 1)"
proof -
  let ?df = "[(''chl_ugL'', [VNum 20, VNum 25])]"
  let ?cells = "[VNum 20, VNum 25]"
  have c: "map_of ?df (chl_value_col default_label_config) = Some ?cells
      \<and> label_col default_label_config \<noteq> ''label_version''
      \<and> label_col default_label_config \<noteq> ''label_config_fingerprint''"
    by (simp add: default_label_config_def)
  from label_rule [THEN conjunct1, rule_format, OF c, of "\<lambda>c. ''digest''"]
  obtain out labels where
    o: "build_from_feature_matrix (\<lambda>c. ''digest'') default_label_config ?df = Inr out"
    and l: "map_of out (label_col default_label_config) = Some (Labels labels)"
    and r: "\<forall>i < length ?cells. \<forall>v. to_numeric (?cells ! i) = Some v \<longrightarrow>
               (strictly_greater default_label_config \<longrightarrow>
                  (labels ! i = 1 \<longleftrightarrow> v > lc_threshold_ugL default_label_config))
             \<and> (\<not> strictly_greater default_label_config \<longrightarrow>
                  (labels ! i = 1 \<longleftrightarrow> v \<ge> lc_threshold_ugL default_label_config))
             \<and> (labels ! i = 0 \<or> labels ! i = 1)"
    by blast
  have s: "strictly_greater default_label_config" by (simp add: default_label_config_def)
  from r [rule_format, of 1 25] s have l1: "labels ! 1 = 1"
    by (simp add: default_label_config_def)
  from r [rule_format, of 0 20] s have l0: "labels ! 0 = 0"
    by (auto simp: default_label_config_def)
  have t: "to_numeric (?cells ! 1) = Some 25" by simp
  from c o l l0 l1 s t show ?thesis by blast
qed

section \<open>Null and non-numeric targets\<close>




section \<open>Shifted rolling means never read the current value\<close>

lemma dict_set_subset: "set (dict_set k v kvs) \<subseteq> insert (k, v) (set kvs)"
  by (induction kvs) (auto split: if_splits)

lemma dict_set_keys: "fst ` set (dict_set k v kvs) = insert k (fst ` set kvs)"
proof (induction kvs)
  case Nil
  show ?case by simp
next
  case (Cons kv kvs)
  obtain k' v' where kv: "kv = (k', v')" by (cases kv)
  show ?case
  proof (cases "k = k'")
    case True
    then show ?thesis by (simp add: kv)
  next
    case False
    then show ?thesis using Cons.IH by (simp add: kv insert_commute)
  qed
qed

lemma roll_loop_entries:
  "roll_loop prefix s ws out0 = Inr out \<Longrightarrow> (name, feat) \<in> set out \<Longrightarrow>
     (name, feat) \<in> set out0
     \<or> (\<exists>w\<in>set ws. 1 \<le> w \<and> name = prefix @ ''_'' @ str_int w \<and> feat = rolling_mean (nat w) s)"
proof (induction ws arbitrary: out0)
  case Nil
  then show ?case by simp
next
  case (Cons w ws)
  from Cons.prems(1) have w: "1 \<le> w"
    and r: "roll_loop prefix s ws (dict_set (prefix @ ''_'' @ str_int w) (rolling_mean (nat w) s) out0) = Inr out"
    by (auto split: if_splits)
  from Cons.IH [OF r Cons.prems(2)] w dict_set_subset [of "prefix @ ''_'' @ str_int w" "rolling_mean (nat w) s" out0]
  show ?case by auto
qed

lemma roll_loop_keys:
  "\<forall>w\<in>set ws. 1 \<le> w \<Longrightarrow>
     \<exists>out. roll_loop prefix s ws out0 = Inr out
       \<and> fst ` set out = fst ` set out0 \<union> (\<lambda>w. prefix @ ''_'' @ str_int w) ` set ws"
proof (induction ws arbitrary: out0)
  case Nil
  then show ?case by simp
next
  case (Cons w ws)
  let ?o = "dict_set (prefix @ ''_'' @ str_int w) (rolling_mean (nat w) s) out0"
  from Cons.prems have "\<forall>w\<in>set ws. 1 \<le> w" and w: "1 \<le> w" by simp_all
  from Cons.IH [OF this(1), of ?o] obtain out where
    o: "roll_loop prefix s ws ?o = Inr out"
    and k: "fst ` set out = fst ` set ?o \<union> (\<lambda>w. prefix @ ''_'' @ str_int w) ` set ws"
    by blast
  from o w have "roll_loop prefix s (w # ws) out0 = Inr out" by simp
  moreover from k have "fst ` set out = fst ` set out0 \<union> (\<lambda>w. prefix @ ''_'' @ str_int w) ` set (w # ws)"
    by (auto simp: dict_set_keys)
  ultimately show ?case by blast
qed

lemma take_butlast_lt: "n < length xs \<Longrightarrow> take n (butlast xs) = take n xs"
  by (simp add: butlast_conv_take)

lemma shifted_window:
  assumes "t < length s"
  shows "List.map_filter id (window_at w (shift1 s) t) = List.map_filter id (drop (t - w) (take t s))"
proof -
  from assms have ne: "s \<noteq> []" by auto
  have tk: "take (Suc t) (shift1 s) = None # take t s"
    using assms ne by (simp add: shift1_def take_butlast_lt)
  show ?thesis
  proof (cases "w \<le> t")
    case True
    then have "Suc t - w = Suc (t - w)" by simp
    then show ?thesis by (simp add: window_at_def tk)
  next
    case False
    then have "Suc t - w = 0" "t - w = 0" by simp_all
    then show ?thesis by (simp add: window_at_def tk)
  qed
qed

lemma length_shift1 [simp]: "length (shift1 s) = length s"
  by (simp add: shift1_def)

lemma length_rolling_mean [simp]: "length (rolling_mean w s) = length s"
  by (simp add: rolling_mean_def)

lemma map_filter_map: "List.map_filter id (map f xs) = List.map_filter f xs"
  by (induction xs) (simp_all split: option.splits)

lemma shifted_rolling_nth:
  assumes "t < length cells"
  shows "rolling_mean w (shift1 (map to_numeric cells)) ! t
           = mean_opt (List.map_filter to_numeric (drop (t - w) (take t cells)))"
proof -
  have "rolling_mean w (shift1 (map to_numeric cells)) ! t
          = mean_opt (List.map_filter id (window_at w (shift1 (map to_numeric cells)) t))"
    using assms by (simp add: rolling_mean_def)
  also have "\<dots> = mean_opt (List.map_filter id (drop (t - w) (take t (map to_numeric cells))))"
    using assms by (simp add: shifted_window)
  also have "\<dots> = mean_opt (List.map_filter to_numeric (drop (t - w) (take t cells)))"
    by (simp add: take_map drop_map map_filter_map)
  finally show ?thesis .
qed

lemma mean_opt_None: "mean_opt (List.map_filter f xs) = None \<longleftrightarrow> (\<forall>x\<in>set xs. f x = None)"
  by (induction xs) (auto simp: mean_opt_def split: option.splits)

lemma map_filter_all_some: "map f xs = map Some ys \<Longrightarrow> List.map_filter f xs = ys"
proof (induction xs arbitrary: ys)
  case Nil
  then show ?case by simp
next
  case (Cons x xs)
  then obtain z zs where "ys = z # zs" by (cases ys) auto
  with Cons show ?case by simp
qed

lemma window_all_some:
  assumes "map f cells = map Some vs"
  shows "List.map_filter f (drop a (take b cells)) = drop a (take b vs)"
proof -
  have "map f (drop a (take b cells)) = drop a (take b (map f cells))"
    by (simp add: drop_map take_map)
  also have "\<dots> = drop a (take b (map Some vs))"
    by (simp only: assms)
  also have "\<dots> = map Some (drop a (take b vs))"
    by (simp add: drop_map take_map)
  finally show ?thesis by (rule map_filter_all_some)
qed

lemma mean_below:
  fixes b :: real
  assumes "xs \<noteq> []" and "\<forall>x\<in>set xs. x < b"
  shows "sum_list xs / real (length xs) < b"
proof -
  have "sum_list xs < real (length xs) * b" using assms
  proof (induction xs rule: list_nonempty_induct)
    case (single x)
    then show ?case by simp
  next
    case (cons x xs)
    then show ?case by (simp add: algebra_simps)
  qed
  moreover have "0 < real (length xs)" using assms(1) by simp
  ultimately show ?thesis by (simp add: pos_divide_less_eq mult.commute)
qed


text \<open>
  Claim C3. For a column that exists and windows of size at least 1, the rolling-mean
  features are returned, one per window, and the feature of window \<open>w\<close> at position
  \<open>t\<close> is the mean of the non-null values among the positions \<open>t - w\<close> to \<open>t - 1\<close>
  that exist: the value at \<open>t\<close> itself is never part of it. It is null exactly when
  none of those positions holds a number, so a partial window at the start of a numeric
  series yields the mean of the \<open>min t w\<close> values before \<open>t\<close>.
\<close>

theorem shifted_rolling_mean:
  assumes "map_of df col = Some cells" and "\<forall>w\<in>set windows. 1 \<le> w"
  shows "\<exists>out. rolling_mean_features df col windows prefix = Inr out
     \<and> (\<forall>w\<in>set windows. \<exists>feat. (prefix @ ''_'' @ str_int w, feat) \<in> set out)
     \<and> (\<forall>(name, feat)\<in>set out. \<exists>w\<in>set windows.
           name = prefix @ ''_'' @ str_int w \<and> length feat = length cells
         \<and> (\<forall>t<length cells.
               feat ! t = mean_opt (List.map_filter to_numeric (drop (t - nat w) (take t cells)))
             \<and> (feat ! t = None \<longleftrightarrow>
                  (\<forall>c\<in>set (drop (t - nat w) (take t cells)). to_numeric c = None)))
         \<and> (\<forall>vs. map to_numeric cells = map Some vs \<longrightarrow>
               (\<forall>t<length cells. 0 < t \<longrightarrow>
                  feat ! t = Some (sum_list (drop (t - nat w) (take t vs)) / real (min t (nat w))))))"
proof -
  let ?s = "shift1 (map to_numeric cells)"
  from roll_loop_keys [OF assms(2), of prefix ?s "[]"] obtain out where
    o: "roll_loop prefix ?s windows [] = Inr out"
    and k: "fst ` set out = (\<lambda>w. prefix @ ''_'' @ str_int w) ` set windows"
    by auto
  have r: "rolling_mean_features df col windows prefix = Inr out"
    using assms(1) o by (simp add: rolling_mean_features_def)
  have a: "\<forall>w\<in>set windows. \<exists>feat. (prefix @ ''_'' @ str_int w, feat) \<in> set out"
  proof
    fix w assume "w \<in> set windows"
    then have "prefix @ ''_'' @ str_int w \<in> fst ` set out" using k by blast
    then show "\<exists>feat. (prefix @ ''_'' @ str_int w, feat) \<in> set out" by force
  qed
  have b: "\<forall>(name, feat)\<in>set out. \<exists>w\<in>set windows.
           name = prefix @ ''_'' @ str_int w \<and> length feat = length cells
         \<and> (\<forall>t<length cells.
               feat ! t = mean_opt (List.map_filter to_numeric (drop (t - nat w) (take t cells)))
             \<and> (feat ! t = None \<longleftrightarrow>
                  (\<forall>c\<in>set (drop (t - nat w) (take t cells)). to_numeric c = None)))
         \<and> (\<forall>vs. map to_numeric cells = map Some vs \<longrightarrow>
               (\<forall>t<length cells. 0 < t \<longrightarrow>
                  feat ! t = Some (sum_list (drop (t - nat w) (take t vs)) / real (min t (nat w)))))"
  proof (clarify)
    fix name feat assume "(name, feat) \<in> set out"
    from roll_loop_entries [OF o this] obtain w where
      w: "w \<in> set windows" "1 \<le> w" and n: "name = prefix @ ''_'' @ str_int w"
      and f: "feat = rolling_mean (nat w) ?s"
      by auto
    have nth: "feat ! t = mean_opt (List.map_filter to_numeric (drop (t - nat w) (take t cells)))"
      if "t < length cells" for t
      using that by (simp add: f shifted_rolling_nth)
    have full: "feat ! t = Some (sum_list (drop (t - nat w) (take t vs)) / real (min t (nat w)))"
      if v: "map to_numeric cells = map Some vs" and t: "t < length cells" "0 < t" for vs t
    proof -
      from v have l: "length vs = length cells" by (metis length_map)
      define win where "win = drop (t - nat w) (take t vs)"
      have len: "length win = min t (nat w)"
        using t l by (auto simp: win_def)
      with t w(2) have "0 < length win" by simp
      then have ne: "win \<noteq> []" by auto
      have "feat ! t = mean_opt win"
        using nth [OF t(1)] by (simp add: window_all_some [OF v] win_def)
      with ne len show ?thesis by (simp add: mean_opt_def win_def [symmetric])
    qed
    show "\<exists>w\<in>set windows.
           name = prefix @ ''_'' @ str_int w \<and> length feat = length cells
         \<and> (\<forall>t<length cells.
               feat ! t = mean_opt (List.map_filter to_numeric (drop (t - nat w) (take t cells)))
             \<and> (feat ! t = None \<longleftrightarrow>
                  (\<forall>c\<in>set (drop (t - nat w) (take t cells)). to_numeric c = None)))
         \<and> (\<forall>vs. map to_numeric cells = map Some vs \<longrightarrow>
               (\<forall>t<length cells. 0 < t \<longrightarrow>
                  feat ! t = Some (sum_list (drop (t - nat w) (take t vs)) / real (min t (nat w)))))"
      using w(1) n nth full by (intro bexI [of _ w]) (simp_all add: f mean_opt_None)
  qed
  from r a b show ?thesis by blast
qed

text \<open>
  Claim C4. For a strictly increasing numeric series, every non-null shifted
  rolling-mean feature value at position \<open>t\<close> is strictly less than the raw value at
  \<open>t\<close>.
\<close>

theorem shifted_mean_below_current:
  assumes "map_of df col = Some cells"
    and "map to_numeric cells = map Some vs"
    and "sorted_wrt (<) vs"
    and "rolling_mean_features df col windows prefix = Inr out"
    and "(name, feat) \<in> set out"
    and "t < length cells"
    and "feat ! t = Some m"
  shows "m < vs ! t"
proof -
  let ?s = "shift1 (map to_numeric cells)"
  from assms(1,4) have o: "roll_loop prefix ?s windows [] = Inr out"
    by (simp add: rolling_mean_features_def)
  from roll_loop_entries [OF o assms(5)] obtain w where
    f: "feat = rolling_mean (nat w) ?s" by auto
  from assms(2) have l: "length vs = length cells" by (metis length_map)
  define win where "win = drop (t - nat w) (take t vs)"
  have "feat ! t = mean_opt win"
    using assms(6) by (simp add: f shifted_rolling_nth window_all_some [OF assms(2)] win_def)
  with assms(7) have ne: "win \<noteq> []" and m: "m = sum_list win / real (length win)"
    by (auto simp: mean_opt_def split: if_splits)
  have "\<forall>x\<in>set win. x < vs ! t"
  proof
    fix x assume "x \<in> set win"
    then have "x \<in> set (take t vs)" unfolding win_def by (rule in_set_dropD)
    then obtain i where "i < t" "i < length vs" "x = vs ! i"
      by (auto simp: in_set_conv_nth)
    with assms(3,6) l show "x < vs ! t" by (simp add: sorted_wrt_iff_nth_less)
  qed
  from mean_below [OF ne this] m show ?thesis by simp
qed

lemma sample_out:
  "rolling_mean_features sample_series ''chl'' [2] ''chl_roll_mean''
     = Inr [(''chl_roll_mean_2'', [None, Some 1, Some (3 / 2), Some 3])]"
  by (simp add: rolling_mean_features_def sample_series_def shift1_def rolling_mean_def
        window_at_def mean_opt_def str_int_def str_nat.simps digit_char_def upt_rec)

theorem shifted_mean_below_current_witness:
  "map_of sample_series ''chl'' = Some [VNum 1, VNum 2, VNum 4, VNum 8]
   \<and> map to_numeric [VNum 1, VNum 2, VNum 4, VNum 8] = map Some [1, 2, 4, 8]
   \<and> sorted_wrt (<) [1, 2, 4, 8 :: real]
   \<and> rolling_mean_features sample_series ''chl'' [2] ''chl_roll_mean''
        = Inr [(''chl_roll_mean_2'', [None, Some 1, Some (3 / 2), Some 3])]
   \<and> (3 :: real) < [1, 2, 4, 8] ! 3"
proof -
  have 1: "map_of sample_series ''chl'' = Some [VNum 1, VNum 2, VNum 4, VNum 8]"
    by (simp add: sample_series_def)
  have 2: "map to_numeric [VNum 1, VNum 2, VNum 4, VNum 8] = map Some [1, 2, 4, 8]"
    by simp
  have 3: "sorted_wrt (<) [1, 2, 4, 8 :: real]" by simp
  have 5: "(''chl_roll_mean_2'', [None, Some 1, Some (3 / 2), Some (3 :: real)])
             \<in> set [(''chl_roll_mean_2'', [None, Some 1, Some (3 / 2), Some 3])]"
    by simp
  have 6: "(3 :: nat) < length [VNum 1, VNum 2, VNum 4, VNum 8]" by simp
  have 7: "[None, Some 1, Some (3 / 2), Some (3 :: real)] ! 3 = Some 3" by simp
  from shifted_mean_below_current [OF 1 2 3 sample_out 5 6 7] 1 2 3 sample_out
  show ?thesis by blast
qed

theorem shifted_rolling_mean_witness:
  "map_of sample_series ''chl'' = Some [VNum 1, VNum 2, VNum 4, VNum 8]
   \<and> (1 :: int) \<le> 2
   \<and> (\<exists>out feat. rolling_mean_features sample_series ''chl'' [2] ''chl_roll_mean'' = Inr out
         \<and> (''chl_roll_mean_2'', feat) \<in> set out
         \<and> feat ! 0 = None \<and> feat ! 1 = Some 1 \<and> feat ! 3 = Some 3)"
proof -
  let ?cells = "[VNum 1, VNum 2, VNum 4, VNum 8]"
  have 1: "map_of sample_series ''chl'' = Some ?cells"
    by (simp add: sample_series_def)
  have 2: "\<forall>w\<in>set [2 :: int]. 1 \<le> w" by simp
  have n: "''chl_roll_mean'' @ ''_'' @ str_int 2 = ''chl_roll_mean_2''"
    by (simp add: str_int_def str_nat.simps digit_char_def)
  from shifted_rolling_mean [OF 1 2, of "''chl_roll_mean''"] obtain out where
    o: "rolling_mean_features sample_series ''chl'' [2] ''chl_roll_mean'' = Inr out"
    and a: "\<forall>w\<in>set [2 :: int]. \<exists>feat. (''chl_roll_mean'' @ ''_'' @ str_int w, feat) \<in> set out"
    and b: "\<forall>(name, feat)\<in>set out. \<exists>w\<in>set [2 :: int].
           name = ''chl_roll_mean'' @ ''_'' @ str_int w \<and> length feat = length ?cells
         \<and> (\<forall>t<length ?cells.
               feat ! t = mean_opt (List.map_filter to_numeric (drop (t - nat w) (take t ?cells)))
             \<and> (feat ! t = None \<longleftrightarrow>
                  (\<forall>c\<in>set (drop (t - nat w) (take t ?cells)). to_numeric c = None)))
         \<and> (\<forall>vs. map to_numeric ?cells = map Some vs \<longrightarrow>
               (\<forall>t<length ?cells. 0 < t \<longrightarrow>
                  feat ! t = Some (sum_list (drop (t - nat w) (take t vs)) / real (min t (nat w)))))"
    by blast
  from a n obtain feat where f: "(''chl_roll_mean_2'', feat) \<in> set out" by auto
  from b f have t: "\<forall>t<length ?cells.
      feat ! t = mean_opt (List.map_filter to_numeric (drop (t - nat 2) (take t ?cells)))"
    by fastforce
  from t [rule_format, of 0] have 0: "feat ! 0 = None" by (simp add: mean_opt_def)
  from t [rule_format, of 1] have 3: "feat ! 1 = Some 1" by (simp add: mean_opt_def)
  from t [rule_format, of 3] have 4: "feat ! 3 = Some 3"
    by (simp add: mean_opt_def numeral_3_eq_3 numeral_2_eq_2)
  have "(1 :: int) \<le> 2" by simp
  with 1 o f 0 3 4 show ?thesis by blast
qed

section \<open>Validation at construction\<close>

lemma validate_inputs_Inl:
  fixes df :: "'s frame" and cfg :: feature_matrix_config
  shows "(\<exists>e. validate_inputs cfg df = Inl e) \<longleftrightarrow>
     (\<not> set (required_columns cfg) \<subseteq> set (columns df)
      \<or> determinand_cast cfg \<notin> {''str'', ''int'', ''none''}
      \<or> window_end_year cfg < window_start_year cfg
      \<or> lookback_days cfg \<le> 0)"
proof -
  have "filter (\<lambda>c. c \<notin> set (columns df)) (required_columns cfg) \<noteq> []
          \<longleftrightarrow> \<not> set (required_columns cfg) \<subseteq> set (columns df)"
    by (auto simp: filter_empty_conv)
  then show ?thesis
    unfolding validate_inputs_def Let_def by (simp only: split: if_splits) auto
qed

text \<open>
  Claim C9. Constructing the builder raises exactly when a required column is missing
  from the table, the comparison mode is not one of "str", "int", "none", the window
  end year is before the start year, or the lookback is not positive; the error is a
  ValueError. Otherwise the builder holds the table and the configuration as given and
  no build step has run (there are no artifacts yet).
\<close>

theorem init_raises_iff:
  fixes df :: "'s frame" and cfg :: feature_matrix_config
  shows "((\<exists>e. init df cfg = Inl e) \<longleftrightarrow>
            (\<not> set (required_columns cfg) \<subseteq> set (columns df)
             \<or> determinand_cast cfg \<notin> {''str'', ''int'', ''none''}
             \<or> window_end_year cfg < window_start_year cfg
             \<or> lookback_days cfg \<le> 0))
       \<and> (\<forall>e. init df cfg = Inl e \<longrightarrow> (\<exists>msg. e = ValueError msg))
       \<and> (\<forall>b. init df cfg = Inr b \<longrightarrow>
             b = \<lparr> b_df = df, b_config = cfg, b_artifacts = None \<rparr>)"
proof -
  have 1: "(\<exists>e. init df cfg = Inl e) \<longleftrightarrow> (\<exists>e. validate_inputs cfg df = Inl e)"
    by (auto simp: init_def split: sum.splits)
  have 2: "\<forall>e. init df cfg = Inl e \<longrightarrow> (\<exists>msg. e = ValueError msg)"
    by (auto simp: init_def validate_inputs_def Let_def split: sum.splits if_splits)
  have 3: "\<forall>b. init df cfg = Inr b \<longrightarrow> b = \<lparr> b_df = df, b_config = cfg, b_artifacts = None \<rparr>"
    by (auto simp: init_def split: sum.splits)
  from 1 2 3 show ?thesis by (simp only: validate_inputs_Inl) 
qed

theorem init_raises_iff_witness:
  "lookback_days (default_config \<lparr> lookback_days := 0 \<rparr>) \<le> 0
   \<and> (\<exists>e. init \<lparr> columns = full_columns, rows = ([] :: nat obs list) \<rparr>
              (default_config \<lparr> lookback_days := 0 \<rparr>) = Inl e)
   \<and> set (required_columns default_config) \<subseteq> set full_columns
   \<and> init \<lparr> columns = full_columns, rows = ([] :: nat obs list) \<rparr> default_config
       = Inr \<lparr> b_df = \<lparr> columns = full_columns, rows = [] \<rparr>, b_config = default_config,
               b_artifacts = None \<rparr>"
proof -
  let ?df = "\<lparr> columns = full_columns, rows = ([] :: nat obs list) \<rparr>"
  have l: "lookback_days (default_config \<lparr> lookback_days := 0 \<rparr>) \<le> 0" by simp
  from init_raises_iff [of ?df "default_config \<lparr> lookback_days := 0 \<rparr>", THEN conjunct1] l
  have a: "\<exists>e. init ?df (default_config \<lparr> lookback_days := 0 \<rparr>) = Inl e" by blast
  have s: "set (required_columns default_config) \<subseteq> set full_columns"
    by (simp add: required_columns_def default_config_def full_columns_def)
  have ok: "\<not> (\<not> set (required_columns default_config) \<subseteq> set (columns ?df)
             \<or> determinand_cast default_config \<notin> {''str'', ''int'', ''none''}
             \<or> window_end_year default_config < window_start_year default_config
             \<or> lookback_days default_config \<le> 0)"
    using s by (simp add: default_config_def)
  from init_raises_iff [of ?df default_config, THEN conjunct1] ok
  have "\<not> (\<exists>e. init ?df default_config = Inl e)" by blast
  then obtain b where b: "init ?df default_config = Inr b"
    by (cases "init ?df default_config") auto
  from init_raises_iff [of ?df default_config, THEN conjunct2, THEN conjunct2, rule_format, OF b] b
  have "init ?df default_config
          = Inr \<lparr> b_df = ?df, b_config = default_config, b_artifacts = None \<rparr>"
    by simp
  with l a s show ?thesis by blast
qed

section \<open>Identifier normalisation\<close>

lemma year_jan: "year_of (jan2005 1) = 2005" "year_of (jan2005 10) = 2005" "year_of (jan2005 0) = 2004"
  "year_of (jan2005 366) = 2006" "year_of (jan2005 365) = 2005"
  by (simp_all add: year_of_def jan2005_def ns_per_day_def civil_year_def year_from_def
        month_index_def yoe_of_def)

lemma int_061: "int_of_string ''061'' = Some 61" "int_of_string ''61'' = Some 61"
  by (simp_all add: int_of_string_def strip_def is_space_def digit_of_def)

lemma ident_window:
  "filter_window (default_config \<lparr> determinand_cast := cast \<rparr>) (rows ident_table)
     = [\<lparr> w_time = jan2005 10, w_site = ''A'', w_det = DStr ''61'', w_value = VNum 1 \<rparr>]"
  by (simp add: filter_window_def ident_table_def parse_row_def in_window_def year_jan
        default_config_def List.map_filter_simps)

text \<open>
  Counterexample to claim C8 as stated. On a table whose row carries "61", string mode
  finds nothing for "061" but finds the row for "61", integer mode finds the row for
  "61", and as-is mode finds nothing for the integer 61: neither within one mode nor
  across the modes do the three identifiers select the same series.
\<close>

theorem identifiers_differ:
  "extract_predictor_series sample_lib (ident_builder ''str'') (DStr ''061'') = Inr []
   \<and> extract_predictor_series sample_lib (ident_builder ''str'') (DStr ''61'')
       = Inr [\<lparr> ps_site = ''A'', ps_time = jan2005 10, ps_value = 1 \<rparr>]
   \<and> extract_predictor_series sample_lib (ident_builder ''int'') (DStr ''61'')
       = Inr [\<lparr> ps_site = ''A'', ps_time = jan2005 10, ps_value = 1 \<rparr>]
   \<and> extract_predictor_series sample_lib (ident_builder ''none'') (DInt 61) = Inr []"
  by (simp add: extract_predictor_series_def ident_builder_def ident_window select_det_def
        normalize_det_def norm_eq_def pred_row_def sample_lib_def int_061 Let_def)

lemma str_int_61: "str_int 61 = ''61''"
  by (simp add: str_int_def str_nat.simps digit_char_def)

lemma clean_norm_61:
  "clean_norm (DStr ''061'') = ''61''" "clean_norm (DStr ''61'') = ''61''"
  "clean_norm (DInt 61) = ''61''"
  by (simp_all add: clean_norm_def strip_def is_space_def str_int_61)

text \<open>
  Claim C8, amended. In integer comparison mode "061", "61" and 61 select the same
  series from every table; in string mode "61" and 61 do. The clean layer's determinand
  filter, which strips leading zeros, keeps the same rows for all three.
\<close>

theorem identifiers_agree:
  fixes b :: "'s::linorder builder"
  shows "(determinand_cast (b_config b) = ''int'' \<longrightarrow>
            extract_predictor_series l b (DStr ''061'') = extract_predictor_series l b (DInt 61)
          \<and> extract_predictor_series l b (DStr ''61'') = extract_predictor_series l b (DInt 61))
       \<and> (determinand_cast (b_config b) = ''str'' \<longrightarrow>
            extract_predictor_series l b (DStr ''61'') = extract_predictor_series l b (DInt 61))
       \<and> filter_determinands [DStr ''061''] df = filter_determinands [DInt 61] df
       \<and> filter_determinands [DStr ''61''] df = filter_determinands [DInt 61] df"
  by (simp add: extract_predictor_series_def select_det_def normalize_det_def int_061
        str_int_61 filter_determinands_def clean_norm_61 Let_def)

lemma year_jan4: "year_of (jan2005 1) = 2005" "year_of (jan2005 2) = 2005"
  "year_of (jan2005 3) = 2005" "year_of (jan2005 4) = 2005"
  by (simp_all add: year_of_def jan2005_def ns_per_day_def civil_year_def year_from_def
        month_index_def yoe_of_def)

lemma mixed_window:
  "filter_window (default_config \<lparr> determinand_cast := cast \<rparr>) (rows mixed_table)
     = [\<lparr> w_time = jan2005 1, w_site = ''A'', w_det = DStr ''061'', w_value = VNum 1 \<rparr>,
        \<lparr> w_time = jan2005 2, w_site = ''A'', w_det = DStr ''61'', w_value = VNum 2 \<rparr>,
        \<lparr> w_time = jan2005 3, w_site = ''A'', w_det = DInt 61, w_value = VNum 3 \<rparr>,
        \<lparr> w_time = jan2005 4, w_site = ''A'', w_det = DStr ''7887'', w_value = VNum 4 \<rparr>]"
  by (simp add: filter_window_def mixed_table_def parse_row_def in_window_def
        year_jan4 default_config_def)

lemma int_7887: "int_of_string ''7887'' = Some 7887"
  by (simp add: int_of_string_def strip_def is_space_def digit_of_def)

lemma mixed_int_61:
  "extract_predictor_series sample_lib (mixed_builder ''int'') (DInt 61)
     = Inr [\<lparr> ps_site = ''A'', ps_time = jan2005 1, ps_value = 1 \<rparr>,
            \<lparr> ps_site = ''A'', ps_time = jan2005 2, ps_value = 2 \<rparr>,
            \<lparr> ps_site = ''A'', ps_time = jan2005 3, ps_value = 3 \<rparr>]"
  by (simp add: extract_predictor_series_def mixed_builder_def mixed_window select_det_def
        normalize_det_def norm_eq_def pred_row_def sample_lib_def int_061 int_7887 Let_def
        jan2005_def ns_per_day_def)

theorem identifiers_agree_witness:
  "determinand_cast (b_config (mixed_builder ''int'')) = ''int''
   \<and> extract_predictor_series sample_lib (mixed_builder ''int'') (DStr ''061'')
       = Inr [\<lparr> ps_site = ''A'', ps_time = jan2005 1, ps_value = 1 \<rparr>,
              \<lparr> ps_site = ''A'', ps_time = jan2005 2, ps_value = 2 \<rparr>,
              \<lparr> ps_site = ''A'', ps_time = jan2005 3, ps_value = 3 \<rparr>]
   \<and> extract_predictor_series sample_lib (mixed_builder ''int'') (DStr ''61'')
       = Inr [\<lparr> ps_site = ''A'', ps_time = jan2005 1, ps_value = 1 \<rparr>,
              \<lparr> ps_site = ''A'', ps_time = jan2005 2, ps_value = 2 \<rparr>,
              \<lparr> ps_site = ''A'', ps_time = jan2005 3, ps_value = 3 \<rparr>]"
proof -
  have c: "determinand_cast (b_config (mixed_builder ''int'')) = ''int''"
    by (simp add: mixed_builder_def)
  from identifiers_agree [of "mixed_builder ''int''" sample_lib, THEN conjunct1, rule_format, OF c]
    mixed_int_61 c
  show ?thesis by simp
qed

section \<open>What the assembly does to the anchor rows\<close>

lemma extract_sorted:
  "extract_predictor_series l b pid = Inr pred \<Longrightarrow>
     sort_key (\<lambda>r. (ps_site r, ps_time r)) pred = pred"
  by (auto simp: extract_predictor_series_def Let_def split: sum.splits
        intro!: sort_key_id_if_sorted)

lemma merge_asof_backward_Inr:
  assumes "merge_asof_backward cfg anchor pred name = Inr out"
  shows "ff_names out = ff_names anchor @ [name]"
    and "name \<notin> set (ff_names anchor)"
    and "ff_rows out =
           map (\<lambda>row. row \<lparr> f_preds := f_preds row @
                  [(name, joined_cols cfg (sort_key (\<lambda>r. (ps_site r, ps_time r)) pred) row)] \<rparr>)
             (sort_key (\<lambda>r. (f_site r, f_time r)) (ff_rows anchor))"
  using assms
  by (auto simp: merge_asof_backward_def merge_asof_def Let_def join_row_def joined_cols_def
        split: if_splits sum.splits)

lemma merge_predictors_inv:
  assumes "merge_predictors l b feat pids = Inr out"
  shows "ff_names out = ff_names feat @ map feature_name_of pids
       \<and> (distinct (ff_names feat) \<longrightarrow> distinct (ff_names out))
       \<and> length (ff_rows out) = length (ff_rows feat)
       \<and> (\<forall>r'\<in>set (ff_rows out). \<exists>r\<in>set (ff_rows feat). \<exists>es.
             r' = r \<lparr> f_preds := f_preds r @ es \<rparr>
           \<and> map fst es = map feature_name_of pids
           \<and> (\<forall>i<length pids. \<exists>pred.
                 extract_predictor_series l b (pids ! i) = Inr pred
               \<and> snd (es ! i) = joined_cols (b_config b) pred r))"
  using assms
proof (induction pids arbitrary: feat)
  case Nil
  then show ?case by auto
next
  case (Cons pid pids)
  from Cons.prems obtain pred feat1 where
    e: "extract_predictor_series l b pid = Inr pred"
    and m: "merge_asof_backward (b_config b) feat pred (feature_name_of pid) = Inr feat1"
    and r: "merge_predictors l b feat1 pids = Inr out"
    by (auto split: sum.splits)
  note m1 = merge_asof_backward_Inr [OF m, unfolded extract_sorted [OF e]]
  note ih = Cons.IH [OF r]
  have names: "ff_names out = ff_names feat @ map feature_name_of (pid # pids)"
    using ih m1(1) by simp
  have dist: "distinct (ff_names feat) \<longrightarrow> distinct (ff_names out)"
  proof
    assume "distinct (ff_names feat)"
    with m1(1,2) have "distinct (ff_names feat1)" by simp
    with ih show "distinct (ff_names out)" by blast
  qed
  have len: "length (ff_rows out) = length (ff_rows feat)"
    using ih m1(3) by simp
  have rows: "\<forall>r'\<in>set (ff_rows out). \<exists>r\<in>set (ff_rows feat). \<exists>es.
             r' = r \<lparr> f_preds := f_preds r @ es \<rparr>
           \<and> map fst es = map feature_name_of (pid # pids)
           \<and> (\<forall>i<length (pid # pids). \<exists>pred.
                 extract_predictor_series l b ((pid # pids) ! i) = Inr pred
               \<and> snd (es ! i) = joined_cols (b_config b) pred r)"
  proof
    fix r' assume "r' \<in> set (ff_rows out)"
    with ih obtain r1 es where r1: "r1 \<in> set (ff_rows feat1)"
      and r': "r' = r1 \<lparr> f_preds := f_preds r1 @ es \<rparr>"
      and fs: "map fst es = map feature_name_of pids"
      and en: "\<forall>i<length pids. \<exists>pred.
                 extract_predictor_series l b (pids ! i) = Inr pred
               \<and> snd (es ! i) = joined_cols (b_config b) pred r1"
      by blast
    from r1 m1(3) obtain r where r: "r \<in> set (ff_rows feat)"
      and r1': "r1 = r \<lparr> f_preds := f_preds r @
                  [(feature_name_of pid, joined_cols (b_config b) pred r)] \<rparr>"
      by auto
    let ?es = "(feature_name_of pid, joined_cols (b_config b) pred r) # es"
    have a: "r' = r \<lparr> f_preds := f_preds r @ ?es \<rparr>" using r' r1' by simp
    have b: "map fst ?es = map feature_name_of (pid # pids)" using fs by simp
    have c: "\<exists>pred. extract_predictor_series l b ((pid # pids) ! i) = Inr pred
               \<and> snd (?es ! i) = joined_cols (b_config b) pred r"
      if "i < length (pid # pids)" for i
    proof (cases i)
      case 0
      then show ?thesis using e by simp
    next
      case (Suc j)
      with that en have "\<exists>pred. extract_predictor_series l b (pids ! j) = Inr pred
               \<and> snd (es ! j) = joined_cols (b_config b) pred r1" by simp
      then show ?thesis using Suc r1' by (simp add: joined_cols_def)
    qed
    from r a b c show "\<exists>r\<in>set (ff_rows feat). \<exists>es.
             r' = r \<lparr> f_preds := f_preds r @ es \<rparr>
           \<and> map fst es = map feature_name_of (pid # pids)
           \<and> (\<forall>i<length (pid # pids). \<exists>pred.
                 extract_predictor_series l b ((pid # pids) ! i) = Inr pred
               \<and> snd (es ! i) = joined_cols (b_config b) pred r)"
      by blast
  qed
  from names dist len rows show ?case by blast
qed

lemma since_last_rows:
  "length (since_last seen rs) = length rs
   \<and> (\<forall>r'\<in>set (since_last seen rs). \<exists>r\<in>set rs. \<exists>d. r' = r \<lparr> days_since_last_chl := d \<rparr>)"
  by (induction rs arbitrary: seen) auto

lemma add_time_features_rows:
  "ff_names (add_time_features cfg df) = ff_names df
   \<and> length (ff_rows (add_time_features cfg df)) = length (ff_rows df)
   \<and> (\<forall>r'\<in>set (ff_rows (add_time_features cfg df)). \<exists>r\<in>set (ff_rows df). \<exists>d.
         r' = r \<lparr> days_since_last_chl := d \<rparr>)"
proof (cases "add_days_since_last_chl cfg")
  case True
  then show ?thesis
    using since_last_rows [of "[]" "sort_key (\<lambda>r. (f_site r, f_time r)) (ff_rows df)"]
    by (simp add: add_time_features_def)
next
  case False
  then have "add_time_features cfg df = df" by (simp add: add_time_features_def)
  moreover have "\<exists>r\<in>set (ff_rows df). \<exists>d. r' = r \<lparr> days_since_last_chl := d \<rparr>"
    if "r' \<in> set (ff_rows df)" for r'
  proof -
    have "r' = r' \<lparr> days_since_last_chl := days_since_last_chl r' \<rparr>" by simp
    with that show ?thesis by blast
  qed
  ultimately show ?thesis by simp
qed

lemma build_target_anchor_Inr:
  assumes "build_target_anchor l b = Inr anchor"
  shows "ff_names anchor = []" and "\<forall>r\<in>set (ff_rows anchor). f_preds r = []"
  using assms
  by (auto simp: build_target_anchor_def Let_def anchor_row_def List.map_filter_def
        split: sum.splits)

lemma map_of_nth:
  "distinct (map fst es) \<Longrightarrow> i < length es \<Longrightarrow> map_of es (fst (es ! i)) = Some (snd (es ! i))"
  by (metis map_of_eq_Some_iff nth_mem prod.collapse)

lemma joined_cols_cong:
  "f_site r' = f_site r \<Longrightarrow> f_time r' = f_time r \<Longrightarrow>
     joined_cols cfg pred r' = joined_cols cfg pred r"
  by (simp add: joined_cols_def)

lemma build_Inr:
  fixes b :: "'s::linorder builder"
  assumes "fst (build l b) = Inr fm"
  shows "\<exists>anchor. build_target_anchor l b = Inr anchor
       \<and> fm_names fm = map feature_name_of (predictor_ids (b_config b))
       \<and> distinct (fm_names fm)
       \<and> length (fm_rows fm) = length (ff_rows anchor)
       \<and> (\<forall>r'\<in>set (fm_rows fm). \<exists>r\<in>set (ff_rows anchor). \<exists>es d.
             r' = r \<lparr> f_preds := es, days_since_last_chl := d \<rparr>
           \<and> map fst es = map feature_name_of (predictor_ids (b_config b))
           \<and> (\<forall>i<length (predictor_ids (b_config b)). \<exists>pred.
                 extract_predictor_series l b (predictor_ids (b_config b) ! i) = Inr pred
               \<and> snd (es ! i) = joined_cols (b_config b) pred r'))"
proof -
  let ?cfg = "b_config b"
  from assms obtain anchor merged where
    a: "build_target_anchor l b = Inr anchor"
    and m: "merge_predictors l b anchor (predictor_ids ?cfg) = Inr merged"
    and fm: "fm_names fm = ff_names (add_time_features ?cfg merged)"
      "fm_rows fm = sort_key (\<lambda>r. (f_site r, f_time r)) (ff_rows (add_time_features ?cfg merged))"
    by (auto simp: build_def Let_def split: sum.splits)
  note an = build_target_anchor_Inr [OF a]
  note inv = merge_predictors_inv [OF m]
  note tf = add_time_features_rows [of ?cfg merged]
  from inv an(1) have mn: "ff_names merged = map feature_name_of (predictor_ids ?cfg)"
    and md: "distinct (ff_names merged)"
    by auto
  have names: "fm_names fm = map feature_name_of (predictor_ids ?cfg)"
    using fm(1) tf mn by simp
  have dist: "distinct (fm_names fm)"
    using fm(1) tf md by simp
  have len: "length (fm_rows fm) = length (ff_rows anchor)"
    using fm(2) tf inv by simp
  have rows: "\<exists>r\<in>set (ff_rows anchor). \<exists>es d.
             r' = r \<lparr> f_preds := es, days_since_last_chl := d \<rparr>
           \<and> map fst es = map feature_name_of (predictor_ids ?cfg)
           \<and> (\<forall>i<length (predictor_ids ?cfg). \<exists>pred.
                 extract_predictor_series l b (predictor_ids ?cfg ! i) = Inr pred
               \<and> snd (es ! i) = joined_cols ?cfg pred r')"
    if "r' \<in> set (fm_rows fm)" for r'
  proof -
    from that fm(2) have "r' \<in> set (ff_rows (add_time_features ?cfg merged))" by simp
    with tf obtain r1 d where r1: "r1 \<in> set (ff_rows merged)"
      and r': "r' = r1 \<lparr> days_since_last_chl := d \<rparr>" by blast
    from r1 inv obtain r es where r: "r \<in> set (ff_rows anchor)"
      and r1': "r1 = r \<lparr> f_preds := f_preds r @ es \<rparr>"
      and fs: "map fst es = map feature_name_of (predictor_ids ?cfg)"
      and en: "\<forall>i<length (predictor_ids ?cfg). \<exists>pred.
                 extract_predictor_series l b (predictor_ids ?cfg ! i) = Inr pred
               \<and> snd (es ! i) = joined_cols ?cfg pred r"
      by blast
    from r an(2) have "f_preds r = []" by blast
    with r' r1' have eq: "r' = r \<lparr> f_preds := es, days_since_last_chl := d \<rparr>" by simp
    then have "joined_cols ?cfg pred r' = joined_cols ?cfg pred r" for pred
      by (simp add: joined_cols_def)
    with r eq fs en show ?thesis by metis
  qed
  from a names dist len rows show ?thesis by blast
qed

lemma build_pred_cols:
  fixes b :: "'s::linorder builder"
  assumes "fst (build l b) = Inr fm" and "row \<in> set (fm_rows fm)"
    and "pid \<in> set (predictor_ids (b_config b))"
  shows "\<exists>pred. extract_predictor_series l b pid = Inr pred
       \<and> map_of (f_preds row) (feature_name_of pid) = Some (joined_cols (b_config b) pred row)"
proof -
  let ?pids = "predictor_ids (b_config b)"
  from build_Inr [OF assms(1)] assms(2) obtain es where
    es: "f_preds row = es" "map fst es = map feature_name_of ?pids"
    and d: "distinct (map feature_name_of ?pids)"
    and en: "\<forall>i<length ?pids. \<exists>pred.
                 extract_predictor_series l b (?pids ! i) = Inr pred
               \<and> snd (es ! i) = joined_cols (b_config b) pred row"
    by fastforce
  from assms(3) obtain i where i: "i < length ?pids" "?pids ! i = pid"
    by (auto simp: in_set_conv_nth)
  with en obtain pred where p: "extract_predictor_series l b pid = Inr pred"
    "snd (es ! i) = joined_cols (b_config b) pred row" by auto
  from es(2) have len: "length es = length ?pids" by (metis length_map)
  from es(2) i len have "fst (es ! i) = feature_name_of pid"
    by (metis nth_map)
  moreover from d es(2) have "distinct (map fst es)" by simp
  ultimately have "map_of es (feature_name_of pid) = Some (snd (es ! i))"
    using map_of_nth [of es i] i len by simp
  with p es(1) show ?thesis by simp
qed

section \<open>Lookback enforcement\<close>





lemma year_lookback: "year_of (jan2005 1) = 2005" "year_of (jan2005 10) = 2005"
  "year_of (jan2005 18) = 2005" "year_of (jan2005 20) = 2005"
  by (simp_all add: year_of_def jan2005_def ns_per_day_def civil_year_def year_from_def
        month_index_def yoe_of_def)

lemma lookback_config_fields:
  "determinand_cast lookback_config = ''str''"
  "window_start_year lookback_config = 2005"
  "window_end_year lookback_config = 2025"
  "target_determinand_id lookback_config = DStr ''7887''"
  "threshold_ugL lookback_config = 20"
  "predictor_ids lookback_config = [DStr ''348'']"
  "lookback_days lookback_config = 5"
  "add_missing_flags lookback_config"
  "add_age_days lookback_config"
  "add_days_since_last_chl lookback_config"
  "feature_version lookback_config = ''FEAT_V1''"
  "snapshot_id lookback_config = Some ''test_snap''"
  by (simp_all add: lookback_config_def default_config_def)

lemma lookback_window:
  "filter_window lookback_config (rows lookback_table)
     = [\<lparr> w_time = jan2005 1, w_site = ''A'', w_det = DStr ''348'', w_value = VNum 1 \<rparr>,
        \<lparr> w_time = jan2005 10, w_site = ''A'', w_det = DStr ''7887'', w_value = VNum 25 \<rparr>,
        \<lparr> w_time = jan2005 18, w_site = ''A'', w_det = DStr ''348'', w_value = VNum 7 \<rparr>,
        \<lparr> w_time = jan2005 20, w_site = ''A'', w_det = DStr ''7887'', w_value = VNum 30 \<rparr>]"
  by (simp add: filter_window_def lookback_table_def parse_row_def in_window_def
        year_lookback lookback_config_fields)

lemma jan2005_le [simp]: "jan2005 a \<le> jan2005 b \<longleftrightarrow> a \<le> b"
  by (simp add: jan2005_def ns_per_day_def)

lemma lookback_anchor:
  "build_target_anchor sample_lib lookback_builder
     = Inr \<lparr> ff_names = [],
             ff_rows = [\<lparr> f_site = ''A'', f_time = jan2005 10, chl_ugL = 25, y = 1,
                          f_preds = [], days_since_last_chl = None \<rparr>,
                        \<lparr> f_site = ''A'', f_time = jan2005 20, chl_ugL = 30, y = 1,
                          f_preds = [], days_since_last_chl = None \<rparr>] \<rparr>"
  by (simp add: build_target_anchor_def lookback_builder_def lookback_window select_det_def
        normalize_det_def norm_eq_def anchor_row_def gt_label_def lookback_config_fields Let_def)

lemma lookback_pred:
  "extract_predictor_series sample_lib lookback_builder (DStr ''348'')
     = Inr [\<lparr> ps_site = ''A'', ps_time = jan2005 1, ps_value = 1 \<rparr>,
            \<lparr> ps_site = ''A'', ps_time = jan2005 18, ps_value = 7 \<rparr>]"
  by (simp add: extract_predictor_series_def lookback_builder_def lookback_window select_det_def
        normalize_det_def norm_eq_def pred_row_def lookback_config_fields Let_def)

lemma jan2005_less [simp]: "jan2005 a < jan2005 b \<longleftrightarrow> a < b"
  by (simp add: jan2005_def ns_per_day_def)

lemma jan2005_eq [simp]: "jan2005 a = jan2005 b \<longleftrightarrow> a = b"
  by (simp add: jan2005_def ns_per_day_def)

lemma age_days_jan [simp]: "age_days (jan2005 a) (jan2005 b) = real_of_int (a - b)"
proof -
  have "jan2005 a - jan2005 b = (a - b) * 86400000000000"
    by (simp add: jan2005_def ns_per_day_def algebra_simps)
  then show ?thesis by (simp add: age_days_def)
qed

lemma lookback_builder_fields:
  "b_config lookback_builder = lookback_config" "b_df lookback_builder = lookback_table"
  by (simp_all add: lookback_builder_def)

lemma lookback_build:
  "fst (build sample_lib lookback_builder)
     = Inr \<lparr> fm_names = [''det_348''], fm_rows = [stale_row, fresh_row],
             fm_feature_version = ''FEAT_V1'', fm_feature_config_fingerprint = ''digest'',
             fm_snapshot_id = Some ''test_snap'' \<rparr>"
  by (simp add: build_def Let_def make_config_fingerprint_def sample_lib_def
        lookback_anchor [unfolded sample_lib_def] lookback_pred [unfolded sample_lib_def]
        lookback_builder_fields lookback_config_fields
        merge_asof_backward_def merge_asof_def asof_match_def join_row_def pred_cols_of_def
        feature_name_of_def add_time_features_def prev_time_def stale_row_def fresh_row_def)


section \<open>Two runs of the builder\<close>

lemma extract_ignores_artifacts:
  "extract_predictor_series l (b \<lparr> b_artifacts := a \<rparr>) pid = extract_predictor_series l b pid"
  by (simp add: extract_predictor_series_def)

lemma anchor_ignores_artifacts:
  "build_target_anchor l (b \<lparr> b_artifacts := a \<rparr>) = build_target_anchor l b"
  by (simp add: build_target_anchor_def)

lemma merge_predictors_ignores_artifacts:
  "merge_predictors l (b \<lparr> b_artifacts := a \<rparr>) feat pids = merge_predictors l b feat pids"
  by (induction pids arbitrary: feat)
     (simp_all add: extract_ignores_artifacts split: sum.splits)

lemma build_ignores_artifacts:
  "fst (build l (b \<lparr> b_artifacts := a \<rparr>)) = fst (build l b)"
  by (simp add: build_def Let_def anchor_ignores_artifacts merge_predictors_ignores_artifacts
        make_config_fingerprint_def split: sum.splits)

lemma build_state:
  "\<exists>a. snd (build l b) = b \<lparr> b_artifacts := a \<rparr>
       \<and> (a = b_artifacts b \<or>
            (\<exists>fm. fst (build l b) = Inr fm
               \<and> a = Some \<lparr> feature_config_fingerprint = fm_feature_config_fingerprint fm,
                            n_rows = length (fm_rows fm), n_pos = sum_list (map y (fm_rows fm)),
                            pos_rate = mean_y (fm_rows fm) \<rparr>))"
proof (cases "fst (build l b)")
  case (Inl e)
  then have "snd (build l b) = b"
    by (auto simp: build_def Let_def split: sum.splits)
  then have "snd (build l b) = b \<lparr> b_artifacts := b_artifacts b \<rparr>" by simp
  then show ?thesis by blast
next
  case (Inr fm)
  then have "snd (build l b) =
      b \<lparr> b_artifacts := Some \<lparr> feature_config_fingerprint = fm_feature_config_fingerprint fm,
                            n_rows = length (fm_rows fm), n_pos = sum_list (map y (fm_rows fm)),
                            pos_rate = mean_y (fm_rows fm) \<rparr> \<rparr>"
    by (auto simp: build_def Let_def split: sum.splits)
  with Inr show ?thesis by blast
qed

text \<open>
  Claim C6. Building twice with the same builder gives the same result (the same
  frame, rows in the same order, or the same error), the fingerprint of the
  configuration is the same before and after a build, the second run leaves the same
  artifacts as the first, and two builders over the same table and configuration give
  the same result whatever artifacts they hold. The digest function is a parameter: the
  statement holds for every function of the configuration.
\<close>

theorem build_deterministic:
  "fst (build l (snd (build l b))) = fst (build l b)
   \<and> make_config_fingerprint l (snd (build l b)) = make_config_fingerprint l b
   \<and> b_artifacts (snd (build l (snd (build l b)))) = b_artifacts (snd (build l b))
   \<and> fst (build l \<lparr> b_df = df, b_config = cfg, b_artifacts = a1 \<rparr>)
       = fst (build l \<lparr> b_df = df, b_config = cfg, b_artifacts = a2 \<rparr>)"
proof -
  from build_state [of l b] obtain a where
    s: "snd (build l b) = b \<lparr> b_artifacts := a \<rparr>" by blast
  have 1: "fst (build l (snd (build l b))) = fst (build l b)"
    by (simp add: s build_ignores_artifacts)
  have 2: "make_config_fingerprint l (snd (build l b)) = make_config_fingerprint l b"
    by (simp add: s make_config_fingerprint_def)
  have 3: "b_artifacts (snd (build l (snd (build l b)))) = b_artifacts (snd (build l b))"
  proof (cases "fst (build l b)")
    case (Inl e)
    then have "snd (build l b) = b"
      by (auto simp: build_def Let_def split: sum.splits)
    then show ?thesis by simp
  next
    case (Inr fm)
    with 1 have "fst (build l (snd (build l b))) = Inr fm" by simp
    then have "b_artifacts (snd (build l (snd (build l b)))) =
        Some \<lparr> feature_config_fingerprint = fm_feature_config_fingerprint fm,
               n_rows = length (fm_rows fm), n_pos = sum_list (map y (fm_rows fm)),
               pos_rate = mean_y (fm_rows fm) \<rparr>"
      by (auto simp: build_def Let_def split: sum.splits)
    moreover from Inr have "b_artifacts (snd (build l b)) =
        Some \<lparr> feature_config_fingerprint = fm_feature_config_fingerprint fm,
               n_rows = length (fm_rows fm), n_pos = sum_list (map y (fm_rows fm)),
               pos_rate = mean_y (fm_rows fm) \<rparr>"
      by (auto simp: build_def Let_def split: sum.splits)
    ultimately show ?thesis by simp
  qed
  have 4: "fst (build l \<lparr> b_df = df, b_config = cfg, b_artifacts = a1 \<rparr>)
       = fst (build l \<lparr> b_df = df, b_config = cfg, b_artifacts = a2 \<rparr>)"
    using build_ignores_artifacts [where l = l and b = "\<lparr> b_df = df, b_config = cfg, b_artifacts = a1 \<rparr>" and a = a2]
    by simp
  from 1 2 3 4 show ?thesis by blast
qed

theorem build_deterministic_witness:
  "fst (build sample_lib (snd (build sample_lib lookback_builder)))
     = Inr \<lparr> fm_names = [''det_348''], fm_rows = [stale_row, fresh_row],
             fm_feature_version = ''FEAT_V1'', fm_feature_config_fingerprint = ''digest'',
             fm_snapshot_id = Some ''test_snap'' \<rparr>"
  using build_deterministic [of sample_lib lookback_builder, THEN conjunct1] lookback_build
  by simp

section \<open>The backward as-of join picks the latest earlier observation\<close>

lemma sorted_le_last:
  fixes xs :: "'a::linorder list"
  assumes "sorted xs" and "x \<in> set xs"
  shows "x \<le> last xs"
proof -
  from assms(2) obtain i where i: "i < length xs" "xs ! i = x"
    by (auto simp: in_set_conv_nth)
  then have ne: "xs \<noteq> []" by auto
  from assms(1) i have "xs ! i \<le> xs ! (length xs - 1)"
    by (intro sorted_nth_mono) auto
  with i ne show ?thesis by (simp add: last_conv_nth)
qed

lemma asof_match_None:
  "asof_match p s t = None \<longleftrightarrow> (\<forall>r\<in>set p. \<not> (ps_site r = s \<and> ps_time r \<le> t))"
proof -
  have "asof_match p s t = None \<longleftrightarrow> filter (\<lambda>r. ps_site r = s \<and> ps_time r \<le> t) p = []"
    by (simp add: asof_match_def split: list.splits)
  then show ?thesis by (simp add: filter_empty_conv)
qed

lemma asof_match_Some:
  fixes p :: "'s::linorder pobs list"
  assumes srt: "sorted (map (\<lambda>r. (ps_site r, ps_time r)) p)"
    and m: "asof_match p s t = Some m"
  shows "m \<in> set p \<and> ps_site m = s \<and> ps_time m \<le> t
       \<and> (\<forall>r\<in>set p. ps_site r = s \<and> ps_time r \<le> t \<longrightarrow> ps_time r \<le> ps_time m)"
proof -
  define c where "c = filter (\<lambda>r. ps_site r = s \<and> ps_time r \<le> t) p"
  from m have ne: "c \<noteq> []" and l: "m = last c"
    by (auto simp: asof_match_def c_def split: list.splits)
  from ne l have mc: "m \<in> set c" by simp
  then have 1: "m \<in> set p" "ps_site m = s" "ps_time m \<le> t" by (auto simp: c_def)
  have sc: "sorted (map (\<lambda>r. (ps_site r, ps_time r)) c)"
    unfolding c_def using srt by (rule sorted_filter)
  have 2: "ps_time r \<le> ps_time m" if r: "r \<in> set p" "ps_site r = s" "ps_time r \<le> t" for r
  proof -
    from r have "r \<in> set c" by (simp add: c_def)
    then have "(ps_site r, ps_time r) \<in> set (map (\<lambda>r. (ps_site r, ps_time r)) c)" by auto
    with sc have "(ps_site r, ps_time r) \<le> last (map (\<lambda>r. (ps_site r, ps_time r)) c)"
      by (rule sorted_le_last)
    also have "\<dots> = (ps_site m, ps_time m)" using ne l by (simp add: last_map)
    finally show ?thesis using r(2) 1(2) by (simp add: less_eq_prod_def)
  qed
  from 1 2 show ?thesis by blast
qed

lemma extract_sorted_key:
  "extract_predictor_series l b pid = Inr pred \<Longrightarrow>
     sorted (map (\<lambda>r. (ps_site r, ps_time r)) pred)"
  by (auto simp: extract_predictor_series_def Let_def split: sum.splits)

lemma pred_cols_no_match:
  "p_value (pred_cols_of cfg t None) = None \<and> p_time (pred_cols_of cfg t None) = None"
  by (simp add: pred_cols_of_def)

lemma pred_cols_match:
  "p_value (pred_cols_of cfg t (Some m))
     = (if age_days t (ps_time m) \<le> real_of_int (lookback_days cfg) then Some (ps_value m) else None)
   \<and> p_time (pred_cols_of cfg t (Some m))
     = (if age_days t (ps_time m) \<le> real_of_int (lookback_days cfg) then Some (ps_time m) else None)"
  by (simp add: pred_cols_of_def Let_def not_less)

text \<open>
  Counterexample to claim C1 as stated. In the lookback example the anchor of 10 January
  has one predictor observation at its site at or before it (1 January, value 1), yet
  the joined value in the built matrix is null: the observation is 9 days old and the
  lookback is 5 days.
\<close>

theorem latest_observation_dropped:
  "fst (build sample_lib lookback_builder)
     = Inr \<lparr> fm_names = [''det_348''], fm_rows = [stale_row, fresh_row],
             fm_feature_version = ''FEAT_V1'', fm_feature_config_fingerprint = ''digest'',
             fm_snapshot_id = Some ''test_snap'' \<rparr>
   \<and> extract_predictor_series sample_lib lookback_builder (DStr ''348'')
       = Inr [\<lparr> ps_site = ''A'', ps_time = jan2005 1, ps_value = 1 \<rparr>,
              \<lparr> ps_site = ''A'', ps_time = jan2005 18, ps_value = 7 \<rparr>]
   \<and> f_site stale_row = ''A'' \<and> f_time stale_row = jan2005 10
   \<and> jan2005 1 \<le> jan2005 10 \<and> \<not> jan2005 18 \<le> jan2005 10
   \<and> map_option p_value (map_of (f_preds stale_row) (feature_name_of (DStr ''348'')))
       = Some None"
  by (simp add: lookback_build lookback_pred stale_row_def feature_name_of_def)

section \<open>The row count and tables with several sites\<close>

lemma year_two_site: "year_of (jan2005 9) = 2005"
  by (simp add: year_of_def jan2005_def ns_per_day_def civil_year_def year_from_def
        month_index_def yoe_of_def)

lemma two_site_builder_fields:
  "b_config (two_site_builder pids) = lookback_config \<lparr> predictor_ids := pids \<rparr>"
  "b_df (two_site_builder pids) = two_site_table"
  by (simp_all add: two_site_builder_def)

lemma two_site_window:
  "filter_window (lookback_config \<lparr> predictor_ids := pids \<rparr>) (rows two_site_table)
     = [\<lparr> w_time = jan2005 9, w_site = ''A'', w_det = DStr ''348'', w_value = VNum 1 \<rparr>,
        \<lparr> w_time = jan2005 10, w_site = ''A'', w_det = DStr ''7887'', w_value = VNum 25 \<rparr>,
        \<lparr> w_time = jan2005 1, w_site = ''B'', w_det = DStr ''7887'', w_value = VNum 5 \<rparr>]"
  by (simp add: filter_window_def two_site_table_def parse_row_def in_window_def
        year_lookback year_two_site lookback_config_fields)

lemma two_site_anchor:
  "build_target_anchor sample_lib (two_site_builder pids)
     = Inr \<lparr> ff_names = [],
             ff_rows = [\<lparr> f_site = ''A'', f_time = jan2005 10, chl_ugL = 25, y = 1,
                          f_preds = [], days_since_last_chl = None \<rparr>,
                        \<lparr> f_site = ''B'', f_time = jan2005 1, chl_ugL = 5, y = 0,
                          f_preds = [], days_since_last_chl = None \<rparr>] \<rparr>"
  by (simp add: build_target_anchor_def two_site_builder_fields two_site_window select_det_def
        normalize_det_def norm_eq_def anchor_row_def gt_label_def lookback_config_fields Let_def)

lemma two_site_pred:
  "extract_predictor_series sample_lib (two_site_builder pids) (DStr ''348'')
     = Inr [\<lparr> ps_site = ''A'', ps_time = jan2005 9, ps_value = 1 \<rparr>]"
  by (simp add: extract_predictor_series_def two_site_builder_fields two_site_window
        select_det_def normalize_det_def norm_eq_def pred_row_def lookback_config_fields Let_def)

text \<open>
  Claim C5 at a table with two sites. With no predictor configured the matrix has one
  row per anchor (two rows). With one predictor configured the same table and window
  give no matrix at all: the anchors, ordered by site and then time, are not ordered by
  time, and the as-of join refuses them.
\<close>

theorem two_site_build_raises:
  "map_sum id (\<lambda>fm. length (fm_rows fm)) (fst (build sample_lib (two_site_builder []))) = Inr 2
   \<and> fst (build sample_lib (two_site_builder [DStr ''348'']))
       = Inl (ValueError ''left keys must be sorted'')"
  by (simp add: build_def Let_def make_config_fingerprint_def
        two_site_anchor two_site_pred two_site_builder_fields lookback_config_fields
        merge_asof_backward_def merge_asof_def feature_name_of_def add_time_features_def
        prev_time_def)

section \<open>The row count of a built matrix\<close>

lemma normalize_det_Inr:
  assumes "normalize_det l cfg series target = Inr (ns, tn)"
  shows "ns = map (norm_cell l cfg) series" and "normalize_det l cfg [] target = Inr ([], tn)"
  using assms
  by (auto simp: normalize_det_def norm_cell_def Let_def split: if_splits sum.splits)

lemma filter_zip_map:
  "map snd (filter (\<lambda>(d, r). P d) (zip (map g xs) xs)) = filter (\<lambda>r. P (g r)) xs"
  by (induction xs) auto

lemma select_det_Inr:
  assumes "select_det l cfg dfw ident = Inr ws"
  shows "\<exists>tn. normalize_det l cfg [] ident = Inr ([], tn)
           \<and> ws = filter (\<lambda>w. norm_eq (norm_cell l cfg (w_det w)) tn) dfw"
proof -
  from assms obtain ns tn where
    n: "normalize_det l cfg (map w_det dfw) ident = Inr (ns, tn)"
    and w: "ws = map snd (filter (\<lambda>(d, r). norm_eq d tn) (zip ns dfw))"
    by (auto simp: select_det_def split: sum.splits)
  note nd = normalize_det_Inr [OF n]
  have "ws = filter (\<lambda>w. norm_eq (norm_cell l cfg (w_det w)) tn) dfw"
    using filter_zip_map [of "\<lambda>d. norm_eq d tn" "\<lambda>w. norm_cell l cfg (w_det w)" dfw]
    by (simp add: w nd(1) comp_def)
  with nd(2) show ?thesis by blast
qed

lemma length_map_filter:
  "length (List.map_filter f xs) = length (filter (\<lambda>x. f x \<noteq> None) xs)"
  by (induction xs) (auto split: option.splits)

lemma length_filter_map_filter:
  "length (filter Q (List.map_filter f xs))
     = length (filter (\<lambda>x. case f x of None \<Rightarrow> False | Some w \<Rightarrow> Q w) xs)"
  by (induction xs) (auto split: option.splits)

lemma anchor_count:
  fixes b :: "'s::linorder builder"
  assumes "build_target_anchor l b = Inr anchor"
  shows "\<exists>tn. normalize_det l (b_config b) [] (target_determinand_id (b_config b)) = Inr ([], tn)
           \<and> length (ff_rows anchor)
               = length (filter (in_series l (b_config b) tn) (rows (b_df b)))"
proof -
  let ?cfg = "b_config b"
  let ?dfw = "filter_window ?cfg (rows (b_df b))"
  from assms obtain df_t where
    s: "select_det l ?cfg ?dfw (target_determinand_id ?cfg) = Inr df_t"
    and a: "ff_rows anchor = sort_key (\<lambda>r. (f_site r, f_time r))
                               (List.map_filter (anchor_row ?cfg) df_t)"
    by (auto simp: build_target_anchor_def Let_def split: sum.splits)
  from select_det_Inr [OF s] obtain tn where
    n: "normalize_det l ?cfg [] (target_determinand_id ?cfg) = Inr ([], tn)"
    and d: "df_t = filter (\<lambda>w. norm_eq (norm_cell l ?cfg (w_det w)) tn) ?dfw"
    by blast
  let ?Q = "\<lambda>w. in_window ?cfg w \<and> norm_eq (norm_cell l ?cfg (w_det w)) tn
                 \<and> to_numeric (w_value w) \<noteq> None"
  have "length (ff_rows anchor) = length (filter (\<lambda>w. anchor_row ?cfg w \<noteq> None) df_t)"
    by (simp add: a length_map_filter)
  also have "\<dots> = length (filter (\<lambda>w. to_numeric (w_value w) \<noteq> None) df_t)"
    by (simp add: anchor_row_def)
  also have "\<dots> = length (filter ?Q (List.map_filter parse_row (rows (b_df b))))"
    by (simp add: d filter_window_def conj_commute conj_left_commute)
  also have "\<dots> = length (filter (\<lambda>r. case parse_row r of None \<Rightarrow> False | Some w \<Rightarrow> ?Q w)
                               (rows (b_df b)))"
    by (rule length_filter_map_filter)
  also have "(\<lambda>r. case parse_row r of None \<Rightarrow> False | Some w \<Rightarrow> ?Q w)
               = in_series l ?cfg tn"
    by (rule ext) (simp add: parse_row_def in_series_def in_window_def split: option.splits)
  finally show ?thesis using n by blast
qed

lemma row_count_when_built:
  fixes b :: "'s::linorder builder"
  assumes "fst (build l b) = Inr fm"
  shows "\<exists>tn. normalize_det l (b_config b) [] (target_determinand_id (b_config b)) = Inr ([], tn)
           \<and> length (fm_rows fm)
               = length (filter (in_series l (b_config b) tn) (rows (b_df b)))"
proof -
  from build_Inr [OF assms] obtain anchor where
    a: "build_target_anchor l b = Inr anchor"
    and l: "length (fm_rows fm) = length (ff_rows anchor)"
    by blast
  from anchor_count [OF a] l show ?thesis by simp
qed

section \<open>Tables with one site are always built\<close>

lemma sorted_times_one_site:
  fixes site :: "'r \<Rightarrow> 's::linorder" and time :: "'r \<Rightarrow> int"
  assumes "\<forall>r\<in>set xs. site r = s"
  shows "sorted (map time (sort_key (\<lambda>r. (site r, time r)) xs))"
proof -
  let ?ys = "sort_key (\<lambda>r. (site r, time r)) xs"
  have "sorted (map (\<lambda>r. (site r, time r)) ?ys)" by (rule sorted_sort_key)
  then have "sorted_wrt (\<lambda>u v. (site u, time u) \<le> (site v, time v)) ?ys"
    by (simp add: sorted_map)
  then have "sorted_wrt (\<lambda>u v. time u \<le> time v) ?ys"
  proof (rule sorted_wrt_mono_rel [rotated])
    fix u v assume "u \<in> set ?ys" "v \<in> set ?ys" "(site u, time u) \<le> (site v, time v)"
    with assms show "time u \<le> time v" by (simp add: less_eq_prod_def)
  qed
  then show ?thesis by (simp add: sorted_map)
qed

lemma set_map_filter_iff:
  "v \<in> set (List.map_filter f xs) \<longleftrightarrow> (\<exists>x\<in>set xs. f x = Some v)"
  by (induction xs) (auto split: option.splits)

lemma filter_window_sites:
  assumes "\<forall>r\<in>set df. o_site r = s" and "w \<in> set (filter_window cfg df)"
  shows "w_site w = s"
proof -
  from assms(2) have "w \<in> set (List.map_filter parse_row df)"
    by (simp add: filter_window_def)
  then obtain r where r: "r \<in> set df" "parse_row r = Some w"
    unfolding set_map_filter_iff by blast
  from r(2) have "w_site w = o_site r" by (auto simp: parse_row_def)
  with r(1) assms(1) show ?thesis by simp
qed

lemma select_det_total:
  assumes "determinand_cast cfg \<noteq> ''int''"
  shows "\<exists>ws. select_det l cfg dfw ident = Inr ws \<and> set ws \<subseteq> set dfw"
proof -
  have "\<exists>ns tn. normalize_det l cfg (map w_det dfw) ident = Inr (ns, tn)"
    using assms by (simp add: normalize_det_def Let_def)
  then obtain ns tn where
    n: "normalize_det l cfg (map w_det dfw) ident = Inr (ns, tn)" by blast
  then have "select_det l cfg dfw ident
               = Inr (map snd (filter (\<lambda>(d, r). norm_eq d tn) (zip ns dfw)))"
    by (simp add: select_det_def)
  moreover have "set (map snd (filter (\<lambda>(d, r). norm_eq d tn) (zip ns dfw))) \<subseteq> set dfw"
    by (auto dest: set_zip_rightD)
  ultimately show ?thesis by blast
qed

lemma extract_total_one_site:
  fixes b :: "'s::linorder builder"
  assumes "\<forall>r\<in>set (rows (b_df b)). o_site r = s"
    and "determinand_cast (b_config b) \<noteq> ''int''"
  shows "\<exists>pred. extract_predictor_series l b pid = Inr pred \<and> (\<forall>p\<in>set pred. ps_site p = s)"
proof -
  let ?cfg = "b_config b"
  let ?dfw = "filter_window ?cfg (rows (b_df b))"
  from select_det_total [OF assms(2), of l ?dfw pid] obtain ws where
    s: "select_det l ?cfg ?dfw pid = Inr ws" and sub: "set ws \<subseteq> set ?dfw" by blast
  let ?pred = "sort_key (\<lambda>r. (ps_site r, ps_time r)) (List.map_filter pred_row ws)"
  have "extract_predictor_series l b pid = Inr ?pred"
    using s by (simp add: extract_predictor_series_def)
  moreover have "\<forall>p\<in>set ?pred. ps_site p = s"
  proof
    fix p assume "p \<in> set ?pred"
    then obtain w where w: "w \<in> set ws" "pred_row w = Some p"
      by (auto simp: set_map_filter_iff)
    with sub have "w \<in> set ?dfw" by blast
    with assms(1) have "w_site w = s" by (rule filter_window_sites)
    with w(2) show "ps_site p = s" by (auto simp: pred_row_def)
  qed
  ultimately show ?thesis by blast
qed

lemma anchor_total_one_site:
  fixes b :: "'s::linorder builder"
  assumes "\<forall>r\<in>set (rows (b_df b)). o_site r = s"
    and "determinand_cast (b_config b) \<noteq> ''int''"
  shows "\<exists>anchor. build_target_anchor l b = Inr anchor \<and> ff_names anchor = []
           \<and> (\<forall>r\<in>set (ff_rows anchor). f_site r = s)"
proof -
  let ?cfg = "b_config b"
  let ?dfw = "filter_window ?cfg (rows (b_df b))"
  from select_det_total [OF assms(2), of l ?dfw "target_determinand_id ?cfg"] obtain ws where
    s: "select_det l ?cfg ?dfw (target_determinand_id ?cfg) = Inr ws"
    and sub: "set ws \<subseteq> set ?dfw" by blast
  let ?rows = "sort_key (\<lambda>r. (f_site r, f_time r)) (List.map_filter (anchor_row ?cfg) ws)"
  have "build_target_anchor l b = Inr \<lparr> ff_names = [], ff_rows = ?rows \<rparr>"
    using s by (simp add: build_target_anchor_def)
  moreover have "\<forall>r\<in>set ?rows. f_site r = s"
  proof
    fix r assume "r \<in> set ?rows"
    then obtain w where w: "w \<in> set ws" "anchor_row ?cfg w = Some r"
      by (auto simp: set_map_filter_iff)
    with sub have "w \<in> set ?dfw" by blast
    with assms(1) have "w_site w = s" by (rule filter_window_sites)
    with w(2) show "f_site r = s" by (auto simp: anchor_row_def)
  qed
  ultimately show ?thesis by simp
qed

lemma merge_asof_backward_total:
  fixes anchor :: "'s::linorder feat_frame"
  assumes "\<forall>r\<in>set (ff_rows anchor). f_site r = s" and "\<forall>p\<in>set pred. ps_site p = s"
    and "name \<notin> set (ff_names anchor)"
  shows "\<exists>out. merge_asof_backward cfg anchor pred name = Inr out
           \<and> ff_names out = ff_names anchor @ [name]
           \<and> (\<forall>r\<in>set (ff_rows out). f_site r = s)"
proof -
  define a where "a = sort_key (\<lambda>r. (f_site r, f_time r)) (ff_rows anchor)"
  define p where "p = sort_key (\<lambda>r. (ps_site r, ps_time r)) pred"
  have sa: "sorted (map f_time a)"
    unfolding a_def using assms(1) by (rule sorted_times_one_site)
  have sp: "sorted (map ps_time p)"
    unfolding p_def using assms(2) by (rule sorted_times_one_site)
  define merged where "merged = map (\<lambda>row. (row, asof_match p (f_site row) (f_time row))) a"
  have ma: "merge_asof a p = Inr merged"
    using sa sp by (simp add: merge_asof_def merged_def)
  define out where
    "out = \<lparr> ff_names = ff_names anchor @ [name], ff_rows = map (join_row cfg name) merged \<rparr>"
  have "merge_asof_backward cfg anchor pred name = Inr out"
    unfolding merge_asof_backward_def Let_def a_def [symmetric] p_def [symmetric]
    using ma assms(3) by (simp add: out_def)
  moreover have "f_site r = s" if "r \<in> set (ff_rows out)" for r
  proof -
    from that obtain row where "row \<in> set a" "r = join_row cfg name (row, asof_match p (f_site row) (f_time row))"
      by (auto simp: out_def merged_def)
    moreover from this(1) assms(1) have "f_site row = s" by (simp add: a_def)
    ultimately show ?thesis by (simp add: join_row_def)
  qed
  moreover have "ff_names out = ff_names anchor @ [name]" by (simp add: out_def)
  ultimately show ?thesis by blast
qed

lemma merge_predictors_total:
  fixes b :: "'s::linorder builder"
  assumes "\<forall>r\<in>set (rows (b_df b)). o_site r = s"
    and "determinand_cast (b_config b) \<noteq> ''int''"
    and "\<forall>r\<in>set (ff_rows feat). f_site r = s"
    and "distinct (ff_names feat @ map feature_name_of pids)"
  shows "\<exists>out. merge_predictors l b feat pids = Inr out"
  using assms(3,4)
proof (induction pids arbitrary: feat)
  case Nil
  then show ?case by simp
next
  case (Cons pid pids)
  from extract_total_one_site [OF assms(1,2), of l pid] obtain pred where
    e: "extract_predictor_series l b pid = Inr pred" and ps: "\<forall>p\<in>set pred. ps_site p = s"
    by blast
  from Cons.prems(2) have fresh: "feature_name_of pid \<notin> set (ff_names feat)" by auto
  from merge_asof_backward_total [OF Cons.prems(1) ps fresh, of "b_config b"] obtain feat1 where
    m: "merge_asof_backward (b_config b) feat pred (feature_name_of pid) = Inr feat1"
    and n: "ff_names feat1 = ff_names feat @ [feature_name_of pid]"
    and s1: "\<forall>r\<in>set (ff_rows feat1). f_site r = s"
    by blast
  from Cons.prems(2) n have "distinct (ff_names feat1 @ map feature_name_of pids)" by simp
  from Cons.IH [OF s1 this] obtain out where "merge_predictors l b feat1 pids = Inr out" by blast
  with e m show ?case by simp
qed

lemma build_returns_one_site:
  fixes b :: "'s::linorder builder"
  assumes "\<forall>r\<in>set (rows (b_df b)). o_site r = s"
    and "determinand_cast (b_config b) \<noteq> ''int''"
    and "distinct (map feature_name_of (predictor_ids (b_config b)))"
  shows "\<exists>fm. fst (build l b) = Inr fm"
proof -
  from anchor_total_one_site [OF assms(1,2), of l] obtain anchor where
    a: "build_target_anchor l b = Inr anchor" and n: "ff_names anchor = []"
    and s: "\<forall>r\<in>set (ff_rows anchor). f_site r = s"
    by blast
  from assms(3) n have "distinct (ff_names anchor @ map feature_name_of (predictor_ids (b_config b)))"
    by simp
  from merge_predictors_total [OF assms(1,2) s this, of l] obtain merged where
    "merge_predictors l b anchor (predictor_ids (b_config b)) = Inr merged" by blast
  with a show ?thesis by (simp add: build_def Let_def)
qed

section \<open>The joined value in terms of the rows of the table\<close>

lemma asof_join_series:
  fixes b :: "'s::linorder builder"
  assumes "fst (build l b) = Inr fm" and "row \<in> set (fm_rows fm)"
    and "pid \<in> set (predictor_ids (b_config b))"
  shows "\<exists>pred e. extract_predictor_series l b pid = Inr pred
       \<and> map_of (f_preds row) (feature_name_of pid) = Some e
       \<and> ((\<forall>r\<in>set pred. \<not> (ps_site r = f_site row \<and> ps_time r \<le> f_time row))
             \<longrightarrow> p_value e = None \<and> p_time e = None)
       \<and> ((\<exists>r\<in>set pred. ps_site r = f_site row \<and> ps_time r \<le> f_time row)
             \<longrightarrow> (\<exists>m\<in>set pred. ps_site m = f_site row \<and> ps_time m \<le> f_time row
                    \<and> (\<forall>r\<in>set pred. ps_site r = f_site row \<and> ps_time r \<le> f_time row
                          \<longrightarrow> ps_time r \<le> ps_time m)
                    \<and> (age_days (f_time row) (ps_time m) \<le> real_of_int (lookback_days (b_config b))
                          \<longrightarrow> p_value e = Some (ps_value m) \<and> p_time e = Some (ps_time m))
                    \<and> (age_days (f_time row) (ps_time m) > real_of_int (lookback_days (b_config b))
                          \<longrightarrow> p_value e = None \<and> p_time e = None)))"
proof -
  let ?cfg = "b_config b"
  from build_pred_cols [OF assms] obtain pred where
    p: "extract_predictor_series l b pid = Inr pred"
    and e: "map_of (f_preds row) (feature_name_of pid) = Some (joined_cols ?cfg pred row)"
    by blast
  let ?m = "asof_match pred (f_site row) (f_time row)"
  let ?e = "pred_cols_of ?cfg (f_time row) ?m"
  from e have e': "map_of (f_preds row) (feature_name_of pid) = Some ?e"
    by (simp add: joined_cols_def)
  have none: "(\<forall>r\<in>set pred. \<not> (ps_site r = f_site row \<and> ps_time r \<le> f_time row))
             \<longrightarrow> p_value ?e = None \<and> p_time ?e = None"
  proof
    assume "\<forall>r\<in>set pred. \<not> (ps_site r = f_site row \<and> ps_time r \<le> f_time row)"
    then have "?m = None" by (simp add: asof_match_None)
    then show "p_value ?e = None \<and> p_time ?e = None" by (simp add: pred_cols_no_match)
  qed
  have some: "(\<exists>r\<in>set pred. ps_site r = f_site row \<and> ps_time r \<le> f_time row)
             \<longrightarrow> (\<exists>m\<in>set pred. ps_site m = f_site row \<and> ps_time m \<le> f_time row
                    \<and> (\<forall>r\<in>set pred. ps_site r = f_site row \<and> ps_time r \<le> f_time row
                          \<longrightarrow> ps_time r \<le> ps_time m)
                    \<and> (age_days (f_time row) (ps_time m) \<le> real_of_int (lookback_days ?cfg)
                          \<longrightarrow> p_value ?e = Some (ps_value m) \<and> p_time ?e = Some (ps_time m))
                    \<and> (age_days (f_time row) (ps_time m) > real_of_int (lookback_days ?cfg)
                          \<longrightarrow> p_value ?e = None \<and> p_time ?e = None))"
  proof
    assume "\<exists>r\<in>set pred. ps_site r = f_site row \<and> ps_time r \<le> f_time row"
    then have "?m \<noteq> None" by (simp add: asof_match_None)
    then obtain m where m: "?m = Some m" by auto
    note latest = asof_match_Some [OF extract_sorted_key [OF p] m]
    have "(age_days (f_time row) (ps_time m) \<le> real_of_int (lookback_days ?cfg)
             \<longrightarrow> p_value ?e = Some (ps_value m) \<and> p_time ?e = Some (ps_time m))
        \<and> (age_days (f_time row) (ps_time m) > real_of_int (lookback_days ?cfg)
             \<longrightarrow> p_value ?e = None \<and> p_time ?e = None)"
      by (simp add: m pred_cols_match)
    with latest show "\<exists>m\<in>set pred. ps_site m = f_site row \<and> ps_time m \<le> f_time row
                    \<and> (\<forall>r\<in>set pred. ps_site r = f_site row \<and> ps_time r \<le> f_time row
                          \<longrightarrow> ps_time r \<le> ps_time m)
                    \<and> (age_days (f_time row) (ps_time m) \<le> real_of_int (lookback_days ?cfg)
                          \<longrightarrow> p_value ?e = Some (ps_value m) \<and> p_time ?e = Some (ps_time m))
                    \<and> (age_days (f_time row) (ps_time m) > real_of_int (lookback_days ?cfg)
                          \<longrightarrow> p_value ?e = None \<and> p_time ?e = None)"
      by blast
  qed
  show ?thesis
    by (rule exI [of _ pred], rule exI [of _ ?e]) (use p e' none some in \<open>intro conjI\<close>)
qed

lemma series_rows:
  fixes b :: "'s::linorder builder"
  assumes "extract_predictor_series l b pid = Inr pred"
  shows "\<exists>pn. normalize_det l (b_config b) [] pid = Inr ([], pn)
           \<and> (\<forall>p. p \<in> set pred \<longleftrightarrow>
                 (\<exists>r\<in>set (rows (b_df b)). in_series l (b_config b) pn r
                    \<and> o_site r = ps_site p
                    \<and> to_datetime (o_time r) = Some (ps_time p)
                    \<and> to_numeric (o_value r) = Some (ps_value p)))"
proof -
  let ?cfg = "b_config b"
  let ?dfw = "filter_window ?cfg (rows (b_df b))"
  from assms obtain ws where
    s: "select_det l ?cfg ?dfw pid = Inr ws"
    and pr: "pred = sort_key (\<lambda>r. (ps_site r, ps_time r)) (List.map_filter pred_row ws)"
    by (auto simp: extract_predictor_series_def Let_def split: sum.splits)
  from select_det_Inr [OF s] obtain pn where
    n: "normalize_det l ?cfg [] pid = Inr ([], pn)"
    and w: "ws = filter (\<lambda>w. norm_eq (norm_cell l ?cfg (w_det w)) pn) ?dfw"
    by blast
  have mem: "p \<in> set pred \<longleftrightarrow>
      (\<exists>r\<in>set (rows (b_df b)). \<exists>u. parse_row r = Some u \<and> in_window ?cfg u
          \<and> norm_eq (norm_cell l ?cfg (w_det u)) pn \<and> pred_row u = Some p)" for p
    by (auto simp: pr w filter_window_def set_map_filter_iff)
  have "p \<in> set pred \<longleftrightarrow>
      (\<exists>r\<in>set (rows (b_df b)). in_series l ?cfg pn r
          \<and> o_site r = ps_site p
          \<and> to_datetime (o_time r) = Some (ps_time p)
          \<and> to_numeric (o_value r) = Some (ps_value p))" for p
  proof
    assume "p \<in> set pred"
    with mem obtain r u where r: "r \<in> set (rows (b_df b))"
      and u: "parse_row r = Some u" "in_window ?cfg u"
        "norm_eq (norm_cell l ?cfg (w_det u)) pn" "pred_row u = Some p"
      by blast
    from u(1) obtain t where t: "to_datetime (o_time r) = Some t"
      and ud: "u = \<lparr> w_time = t, w_site = o_site r, w_det = o_det r, w_value = o_value r \<rparr>"
      by (auto simp: parse_row_def)
    from u(4) obtain v where v: "to_numeric (w_value u) = Some v"
      and pd: "p = \<lparr> ps_site = w_site u, ps_time = w_time u, ps_value = v \<rparr>"
      by (auto simp: pred_row_def)
    have "in_series l ?cfg pn r"
      using t u(2,3) v by (simp add: in_series_def in_window_def ud)
    moreover have "o_site r = ps_site p" "to_datetime (o_time r) = Some (ps_time p)"
      "to_numeric (o_value r) = Some (ps_value p)"
      using t v by (simp_all add: pd ud)
    ultimately show "\<exists>r\<in>set (rows (b_df b)). in_series l ?cfg pn r
          \<and> o_site r = ps_site p
          \<and> to_datetime (o_time r) = Some (ps_time p)
          \<and> to_numeric (o_value r) = Some (ps_value p)"
      using r by blast
  next
    assume "\<exists>r\<in>set (rows (b_df b)). in_series l ?cfg pn r
          \<and> o_site r = ps_site p
          \<and> to_datetime (o_time r) = Some (ps_time p)
          \<and> to_numeric (o_value r) = Some (ps_value p)"
    then obtain r where r: "r \<in> set (rows (b_df b))" and i: "in_series l ?cfg pn r"
      and f: "o_site r = ps_site p" "to_datetime (o_time r) = Some (ps_time p)"
        "to_numeric (o_value r) = Some (ps_value p)"
      by blast
    define u where
      "u = \<lparr> w_time = ps_time p, w_site = o_site r, w_det = o_det r, w_value = o_value r \<rparr>"
    have 1: "parse_row r = Some u" using f(2) by (simp add: parse_row_def u_def)
    have 2: "in_window ?cfg u" "norm_eq (norm_cell l ?cfg (w_det u)) pn"
      using i f(2) by (simp_all add: in_series_def in_window_def u_def)
    have 3: "pred_row u = Some p" using f(1,3) by (simp add: pred_row_def u_def)
    from r 1 2 3 mem show "p \<in> set pred" by blast
  qed
  with n show ?thesis by blast
qed

text \<open>
  Claim C1, amended. Take a configuration in which the names of the columns the build
  reads and writes are pairwise distinct, a row of a built feature matrix and a
  configured predictor, and call an
  observation of the predictor a row of the table whose timestamp parses, whose year
  lies in the window, whose determinand matches the predictor's identifier under the
  comparison mode and whose value is numeric. When no such observation at the row's
  site has a timestamp at or before the row's, the joined value and timestamp are null.
  Otherwise there is such an observation at the row's site, at or before the row's
  timestamp (an equal timestamp counts), that no other one is later than, and the
  joined value and timestamp are its value and timestamp if it is at most
  \<open>lookback_days\<close> old and null if it is older.
\<close>

theorem asof_join_latest:
  fixes b :: "'s::linorder builder"
  assumes "fst (build l b) = Inr fm" and "row \<in> set (fm_rows fm)"
    and "pid \<in> set (predictor_ids (b_config b))"
    and "distinct (build_columns (b_config b))"
  shows "\<exists>pn e. normalize_det l (b_config b) [] pid = Inr ([], pn)
       \<and> map_of (f_preds row) (feature_name_of pid) = Some e
       \<and> ((\<forall>r\<in>set (rows (b_df b)).
               \<not> earlier_obs l (b_config b) pn (f_site row) (f_time row) r)
             \<longrightarrow> p_value e = None \<and> p_time e = None)
       \<and> ((\<exists>r\<in>set (rows (b_df b)).
               earlier_obs l (b_config b) pn (f_site row) (f_time row) r)
             \<longrightarrow> (\<exists>r\<in>set (rows (b_df b)). \<exists>t v.
                      earlier_obs l (b_config b) pn (f_site row) (f_time row) r
                    \<and> to_datetime (o_time r) = Some t \<and> to_numeric (o_value r) = Some v
                    \<and> (\<forall>r'\<in>set (rows (b_df b)). \<forall>t'.
                          earlier_obs l (b_config b) pn (f_site row) (f_time row) r'
                          \<and> to_datetime (o_time r') = Some t' \<longrightarrow> t' \<le> t)
                    \<and> (age_days (f_time row) t \<le> real_of_int (lookback_days (b_config b))
                          \<longrightarrow> p_value e = Some v \<and> p_time e = Some t)
                    \<and> (age_days (f_time row) t > real_of_int (lookback_days (b_config b))
                          \<longrightarrow> p_value e = None \<and> p_time e = None)))"
proof -
  let ?cfg = "b_config b"
  let ?rows = "rows (b_df b)"
  from asof_join_series [OF assms(1-3)] obtain pred e where
    x: "extract_predictor_series l b pid = Inr pred"
    and e: "map_of (f_preds row) (feature_name_of pid) = Some e"
    and none: "(\<forall>r\<in>set pred. \<not> (ps_site r = f_site row \<and> ps_time r \<le> f_time row))
             \<longrightarrow> p_value e = None \<and> p_time e = None"
    and some: "(\<exists>r\<in>set pred. ps_site r = f_site row \<and> ps_time r \<le> f_time row)
             \<longrightarrow> (\<exists>m\<in>set pred. ps_site m = f_site row \<and> ps_time m \<le> f_time row
                    \<and> (\<forall>r\<in>set pred. ps_site r = f_site row \<and> ps_time r \<le> f_time row
                          \<longrightarrow> ps_time r \<le> ps_time m)
                    \<and> (age_days (f_time row) (ps_time m) \<le> real_of_int (lookback_days ?cfg)
                          \<longrightarrow> p_value e = Some (ps_value m) \<and> p_time e = Some (ps_time m))
                    \<and> (age_days (f_time row) (ps_time m) > real_of_int (lookback_days ?cfg)
                          \<longrightarrow> p_value e = None \<and> p_time e = None))"
    by blast
  from series_rows [OF x] obtain pn where
    n: "normalize_det l ?cfg [] pid = Inr ([], pn)"
    and mem: "\<And>p. p \<in> set pred \<longleftrightarrow>
                 (\<exists>r\<in>set ?rows. in_series l ?cfg pn r
                    \<and> o_site r = ps_site p
                    \<and> to_datetime (o_time r) = Some (ps_time p)
                    \<and> to_numeric (o_value r) = Some (ps_value p))"
    by blast
  let ?E = "earlier_obs l ?cfg pn (f_site row) (f_time row)"
  have A: "\<exists>r\<in>set ?rows. ?E r \<and> to_datetime (o_time r) = Some (ps_time p)
             \<and> to_numeric (o_value r) = Some (ps_value p)"
    if "p \<in> set pred" "ps_site p = f_site row" "ps_time p \<le> f_time row" for p
  proof -
    from that(1) mem obtain r where r: "r \<in> set ?rows" "in_series l ?cfg pn r"
      "o_site r = ps_site p" "to_datetime (o_time r) = Some (ps_time p)"
      "to_numeric (o_value r) = Some (ps_value p)"
      by blast
    with that(2,3) have "?E r" by (simp add: earlier_obs_def)
    with r show ?thesis by blast
  qed
  have B: "\<exists>p\<in>set pred. ps_site p = f_site row \<and> ps_time p \<le> f_time row
             \<and> to_datetime (o_time r) = Some (ps_time p)"
    if "r \<in> set ?rows" "?E r" for r
  proof -
    from that(2) have i: "in_series l ?cfg pn r" and st: "o_site r = f_site row"
      by (simp_all add: earlier_obs_def)
    from that(2) obtain t where t: "to_datetime (o_time r) = Some t" "t \<le> f_time row"
      by (auto simp: earlier_obs_def split: option.splits)
    from i t(1) obtain v where v: "to_numeric (o_value r) = Some v"
      by (auto simp: in_series_def)
    let ?p = "\<lparr> ps_site = o_site r, ps_time = t, ps_value = v \<rparr>"
    from that(1) i t(1) v mem [of ?p] have "?p \<in> set pred" by auto
    with st t show ?thesis by (intro bexI [of _ ?p]) simp_all
  qed
  have none': "(\<forall>r\<in>set ?rows. \<not> ?E r) \<longrightarrow> p_value e = None \<and> p_time e = None"
  proof
    assume a: "\<forall>r\<in>set ?rows. \<not> ?E r"
    have "\<forall>p\<in>set pred. \<not> (ps_site p = f_site row \<and> ps_time p \<le> f_time row)"
    proof (intro ballI notI)
      fix p assume "p \<in> set pred" "ps_site p = f_site row \<and> ps_time p \<le> f_time row"
      with A [of p] a show False by blast
    qed
    with none show "p_value e = None \<and> p_time e = None" by blast
  qed
  have some': "(\<exists>r\<in>set ?rows. ?E r)
             \<longrightarrow> (\<exists>r\<in>set ?rows. \<exists>t v. ?E r
                    \<and> to_datetime (o_time r) = Some t \<and> to_numeric (o_value r) = Some v
                    \<and> (\<forall>r'\<in>set ?rows. \<forall>t'.
                          ?E r' \<and> to_datetime (o_time r') = Some t' \<longrightarrow> t' \<le> t)
                    \<and> (age_days (f_time row) t \<le> real_of_int (lookback_days ?cfg)
                          \<longrightarrow> p_value e = Some v \<and> p_time e = Some t)
                    \<and> (age_days (f_time row) t > real_of_int (lookback_days ?cfg)
                          \<longrightarrow> p_value e = None \<and> p_time e = None))"
  proof
    assume "\<exists>r\<in>set ?rows. ?E r"
    then obtain r0 where "r0 \<in> set ?rows" "?E r0" by blast
    from B [OF this] have "\<exists>p\<in>set pred. ps_site p = f_site row \<and> ps_time p \<le> f_time row"
      by blast
    with some obtain m where m: "m \<in> set pred" "ps_site m = f_site row"
      "ps_time m \<le> f_time row"
      and mx: "\<forall>p\<in>set pred. ps_site p = f_site row \<and> ps_time p \<le> f_time row
                 \<longrightarrow> ps_time p \<le> ps_time m"
      and fresh: "age_days (f_time row) (ps_time m) \<le> real_of_int (lookback_days ?cfg)
                 \<longrightarrow> p_value e = Some (ps_value m) \<and> p_time e = Some (ps_time m)"
      and stale: "age_days (f_time row) (ps_time m) > real_of_int (lookback_days ?cfg)
                 \<longrightarrow> p_value e = None \<and> p_time e = None"
      by blast
    from A [OF m] obtain r where r: "r \<in> set ?rows" "?E r"
      "to_datetime (o_time r) = Some (ps_time m)" "to_numeric (o_value r) = Some (ps_value m)"
      by blast
    have latest: "\<forall>r'\<in>set ?rows. \<forall>t'.
        ?E r' \<and> to_datetime (o_time r') = Some t' \<longrightarrow> t' \<le> ps_time m"
    proof (intro ballI allI impI)
      fix r' t' assume r': "r' \<in> set ?rows" and c: "?E r' \<and> to_datetime (o_time r') = Some t'"
      from B [OF r'] c obtain p where p: "p \<in> set pred" "ps_site p = f_site row"
        "ps_time p \<le> f_time row" "to_datetime (o_time r') = Some (ps_time p)"
        by blast
      from p(4) c have "t' = ps_time p" by simp
      with mx p(1-3) show "t' \<le> ps_time m" by blast
    qed
    show "\<exists>r\<in>set ?rows. \<exists>t v. ?E r
                    \<and> to_datetime (o_time r) = Some t \<and> to_numeric (o_value r) = Some v
                    \<and> (\<forall>r'\<in>set ?rows. \<forall>t'.
                          ?E r' \<and> to_datetime (o_time r') = Some t' \<longrightarrow> t' \<le> t)
                    \<and> (age_days (f_time row) t \<le> real_of_int (lookback_days ?cfg)
                          \<longrightarrow> p_value e = Some v \<and> p_time e = Some t)
                    \<and> (age_days (f_time row) t > real_of_int (lookback_days ?cfg)
                          \<longrightarrow> p_value e = None \<and> p_time e = None)"
      by (rule bexI [OF _ r(1)], rule exI [of _ "ps_time m"], rule exI [of _ "ps_value m"])
         (use r latest fresh stale in \<open>intro conjI\<close>)
  qed
  show ?thesis
    by (rule exI [of _ pn], rule exI [of _ e]) (use n e none' some' in \<open>intro conjI\<close>)
qed

lemma edge_builder_fields:
  "b_config edge_builder = lookback_config" "b_df edge_builder = edge_table"
  by (simp_all add: edge_builder_def)

lemma edge_window:
  "filter_window lookback_config (rows edge_table)
     = [\<lparr> w_time = jan2005 1, w_site = ''A'', w_det = DStr ''7887'', w_value = VNum 25 \<rparr>,
        \<lparr> w_time = jan2005 3, w_site = ''A'', w_det = DStr ''348'', w_value = VNum 7 \<rparr>,
        \<lparr> w_time = jan2005 4, w_site = ''A'', w_det = DStr ''7887'', w_value = VNum 30 \<rparr>]"
  by (simp add: filter_window_def edge_table_def parse_row_def in_window_def
        year_jan year_jan4 lookback_config_fields)

lemma edge_anchor:
  "build_target_anchor sample_lib edge_builder
     = Inr \<lparr> ff_names = [],
             ff_rows = [\<lparr> f_site = ''A'', f_time = jan2005 1, chl_ugL = 25, y = 1,
                          f_preds = [], days_since_last_chl = None \<rparr>,
                        \<lparr> f_site = ''A'', f_time = jan2005 4, chl_ugL = 30, y = 1,
                          f_preds = [], days_since_last_chl = None \<rparr>] \<rparr>"
  by (simp add: build_target_anchor_def edge_builder_fields edge_window select_det_def
        normalize_det_def norm_eq_def anchor_row_def gt_label_def lookback_config_fields Let_def)

lemma edge_pred:
  "extract_predictor_series sample_lib edge_builder (DStr ''348'')
     = Inr [\<lparr> ps_site = ''A'', ps_time = jan2005 3, ps_value = 7 \<rparr>]"
  by (simp add: extract_predictor_series_def edge_builder_fields edge_window select_det_def
        normalize_det_def norm_eq_def pred_row_def lookback_config_fields Let_def)

lemma edge_build:
  "fst (build sample_lib edge_builder)
     = Inr \<lparr> fm_names = [''det_348''], fm_rows = [unmatched_row, matched_row],
             fm_feature_version = ''FEAT_V1'', fm_feature_config_fingerprint = ''digest'',
             fm_snapshot_id = Some ''test_snap'' \<rparr>"
  by (simp add: build_def Let_def make_config_fingerprint_def sample_lib_def
        edge_anchor [unfolded sample_lib_def] edge_pred [unfolded sample_lib_def]
        edge_builder_fields lookback_config_fields
        merge_asof_backward_def merge_asof_def asof_match_def join_row_def pred_cols_of_def
        feature_name_of_def add_time_features_def prev_time_def unmatched_row_def
        matched_row_def)

lemma lookback_columns_distinct: "distinct (build_columns lookback_config)"
  by (simp add: build_columns_def derived_columns_def feature_name_of_def
        lookback_config_def default_config_def)

lemma edge_norm:
  "normalize_det sample_lib lookback_config [] (DStr ''348'') = Inr ([], pn)
     \<longleftrightarrow> pn = NStr ''348''"
  by (auto simp: normalize_det_def lookback_config_fields)

lemma edge_no_earlier:
  "r \<in> set (rows edge_table) \<Longrightarrow>
     \<not> earlier_obs sample_lib lookback_config (NStr ''348'') ''A'' (jan2005 1) r"
  by (auto simp: edge_table_def earlier_obs_def in_series_def norm_cell_def norm_eq_def
        year_jan year_jan4 lookback_config_fields)

lemma edge_earlier:
  "r \<in> set (rows edge_table) \<Longrightarrow>
     earlier_obs sample_lib lookback_config (NStr ''348'') ''A'' (jan2005 4) r \<longleftrightarrow>
       r = \<lparr> o_time = TStamp (jan2005 3), o_site = ''A'', o_det = DStr ''348'',
              o_value = VNum 7, o_unit = ''mg/L'' \<rparr>"
  by (auto simp: edge_table_def earlier_obs_def in_series_def norm_cell_def norm_eq_def
        year_jan year_jan4 lookback_config_fields)

theorem asof_join_latest_witness:
  "fst (build sample_lib edge_builder)
     = Inr \<lparr> fm_names = [''det_348''], fm_rows = [unmatched_row, matched_row],
             fm_feature_version = ''FEAT_V1'', fm_feature_config_fingerprint = ''digest'',
             fm_snapshot_id = Some ''test_snap'' \<rparr>
   \<and> unmatched_row \<in> set [unmatched_row, matched_row]
   \<and> matched_row \<in> set [unmatched_row, matched_row]
   \<and> DStr ''348'' \<in> set (predictor_ids (b_config edge_builder))
   \<and> distinct (build_columns (b_config edge_builder))
   \<and> (\<exists>e. map_of (f_preds unmatched_row) (feature_name_of (DStr ''348'')) = Some e
          \<and> p_value e = None \<and> p_time e = None)
   \<and> (\<exists>e. map_of (f_preds matched_row) (feature_name_of (DStr ''348'')) = Some e
          \<and> p_value e = Some 7 \<and> p_time e = Some (jan2005 3))"
proof -
  let ?fm = "\<lparr> fm_names = [''det_348''], fm_rows = [unmatched_row, matched_row],
             fm_feature_version = ''FEAT_V1'', fm_feature_config_fingerprint = ''digest'',
             fm_snapshot_id = Some ''test_snap'' \<rparr>"
  let ?r3 = "\<lparr> o_time = TStamp (jan2005 3), o_site = ''A'', o_det = DStr ''348'',
               o_value = VNum 7, o_unit = ''mg/L'' \<rparr>"
  have r1: "unmatched_row \<in> set (fm_rows ?fm)" and r2: "matched_row \<in> set (fm_rows ?fm)"
    by simp_all
  have p: "DStr ''348'' \<in> set (predictor_ids (b_config edge_builder))"
    by (simp add: edge_builder_fields lookback_config_fields)
  have d: "distinct (build_columns (b_config edge_builder))"
    by (simp add: edge_builder_fields lookback_columns_distinct)
  have u: "f_site unmatched_row = ''A''" "f_time unmatched_row = jan2005 1"
    by (simp_all add: unmatched_row_def)
  have m: "f_site matched_row = ''A''" "f_time matched_row = jan2005 4"
    by (simp_all add: matched_row_def)
  have first: "\<exists>e. map_of (f_preds unmatched_row) (feature_name_of (DStr ''348'')) = Some e
          \<and> p_value e = None \<and> p_time e = None"
  proof -
    from asof_join_latest [OF edge_build r1 p d] obtain pn e where
      n: "normalize_det sample_lib (b_config edge_builder) [] (DStr ''348'') = Inr ([], pn)"
      and e: "map_of (f_preds unmatched_row) (feature_name_of (DStr ''348'')) = Some e"
      and none: "(\<forall>r\<in>set (rows (b_df edge_builder)).
               \<not> earlier_obs sample_lib (b_config edge_builder) pn
                   (f_site unmatched_row) (f_time unmatched_row) r)
             \<longrightarrow> p_value e = None \<and> p_time e = None"
      by blast
    from n have pn: "pn = NStr ''348''" by (simp add: edge_builder_fields edge_norm)
    have "\<forall>r\<in>set (rows (b_df edge_builder)).
               \<not> earlier_obs sample_lib (b_config edge_builder) pn
                   (f_site unmatched_row) (f_time unmatched_row) r"
      by (simp add: pn u edge_builder_fields edge_no_earlier)
    with none e show ?thesis by blast
  qed
  have second: "\<exists>e. map_of (f_preds matched_row) (feature_name_of (DStr ''348'')) = Some e
          \<and> p_value e = Some 7 \<and> p_time e = Some (jan2005 3)"
  proof -
    from asof_join_latest [OF edge_build r2 p d] obtain pn e where
      n: "normalize_det sample_lib (b_config edge_builder) [] (DStr ''348'') = Inr ([], pn)"
      and e: "map_of (f_preds matched_row) (feature_name_of (DStr ''348'')) = Some e"
      and some: "(\<exists>r\<in>set (rows (b_df edge_builder)).
               earlier_obs sample_lib (b_config edge_builder) pn
                 (f_site matched_row) (f_time matched_row) r)
             \<longrightarrow> (\<exists>r\<in>set (rows (b_df edge_builder)). \<exists>t v.
                      earlier_obs sample_lib (b_config edge_builder) pn
                        (f_site matched_row) (f_time matched_row) r
                    \<and> to_datetime (o_time r) = Some t \<and> to_numeric (o_value r) = Some v
                    \<and> (\<forall>r'\<in>set (rows (b_df edge_builder)). \<forall>t'.
                          earlier_obs sample_lib (b_config edge_builder) pn
                            (f_site matched_row) (f_time matched_row) r'
                          \<and> to_datetime (o_time r') = Some t' \<longrightarrow> t' \<le> t)
                    \<and> (age_days (f_time matched_row) t
                          \<le> real_of_int (lookback_days (b_config edge_builder))
                          \<longrightarrow> p_value e = Some v \<and> p_time e = Some t)
                    \<and> (age_days (f_time matched_row) t
                          > real_of_int (lookback_days (b_config edge_builder))
                          \<longrightarrow> p_value e = None \<and> p_time e = None))"
      by blast
    from n have pn: "pn = NStr ''348''" by (simp add: edge_builder_fields edge_norm)
    have in3: "?r3 \<in> set (rows edge_table)" by (simp add: edge_table_def)
    with edge_earlier [OF in3] have
      "\<exists>r\<in>set (rows (b_df edge_builder)).
               earlier_obs sample_lib (b_config edge_builder) pn
                 (f_site matched_row) (f_time matched_row) r"
      unfolding pn m edge_builder_fields by blast
    with some obtain r t v where r: "r \<in> set (rows (b_df edge_builder))"
      and er: "earlier_obs sample_lib (b_config edge_builder) pn
                 (f_site matched_row) (f_time matched_row) r"
      and tv: "to_datetime (o_time r) = Some t" "to_numeric (o_value r) = Some v"
      and fresh: "age_days (f_time matched_row) t
                    \<le> real_of_int (lookback_days (b_config edge_builder))
                  \<longrightarrow> p_value e = Some v \<and> p_time e = Some t"
      by blast
    from r er have "r = ?r3"
      unfolding pn m edge_builder_fields using edge_earlier by blast
    with tv have "t = jan2005 3" "v = 7" by simp_all
    with fresh have "p_value e = Some 7 \<and> p_time e = Some (jan2005 3)"
      by (simp add: m edge_builder_fields lookback_config_fields)
    with e show ?thesis by blast
  qed
  have "unmatched_row \<in> set [unmatched_row, matched_row]"
    "matched_row \<in> set [unmatched_row, matched_row]" by simp_all
  with edge_build p d first second show ?thesis by (intro conjI)
qed

end
